theory Spec2Isabelle
  imports Complex_Main
begin

section \<open>Conventions of the embedding\<close>

text \<open>
  The simulator is written in Go. Its \<^verbatim>\<open>float64\<close> values are embedded as exact
  rationals (\<^typ>\<open>rat\<close>), its \<^verbatim>\<open>time.Duration\<close> and \<^verbatim>\<open>time.Time\<close> values as
  integers counting nanoseconds, its \<^verbatim>\<open>error\<close> values as \<^typ>\<open>string option\<close>
  (\<open>None\<close> is \<^verbatim>\<open>nil\<close>, \<open>Some msg\<close> carries the text of \<^verbatim>\<open>err.Error()\<close>).
  Draws of the process-wide random generator and the outcome of every race between
  goroutines are inputs of the functions that consume them.
\<close>

type_synonym error = "string option"

text \<open>Go's integer division and float-to-integer conversion truncate toward zero.\<close>

definition quot :: "int \<Rightarrow> int \<Rightarrow> int" where
  "quot a b = sgn a * sgn b * (\<bar>a\<bar> div \<bar>b\<bar>)"

definition trunc :: "rat \<Rightarrow> int" where
  "trunc x = (if 0 \<le> x then \<lfloor>x\<rfloor> else \<lceil>x\<rceil>)"

definition Millisecond :: int where
  "Millisecond = 1000000"

definition Second :: int where
  "Second = 1000000000"

section \<open>Curve evaluator (internal/simulation/common.go, behaviorpoint.go)\<close>

datatype BehaviorPointType = Curve | Break

record BehaviorPoint =
  X :: rat
  Y :: rat
  Type :: BehaviorPointType

definition normX :: "rat \<Rightarrow> rat \<Rightarrow> rat \<Rightarrow> rat" where
  "normX minX maxX x = (if maxX = minX then 0 else (x - minX) / (maxX - minX))"

definition denormY :: "rat \<Rightarrow> rat \<Rightarrow> rat \<Rightarrow> rat" where
  "denormY minY maxY y = minY + y * (maxY - minY)"

definition sign :: "rat \<Rightarrow> int" where
  "sign x = (if x > 0 then 1 else if x < 0 then - 1 else 0)"

definition cubicHermite :: "rat \<Rightarrow> rat \<Rightarrow> rat \<Rightarrow> rat \<Rightarrow> rat \<Rightarrow> rat" where
  "cubicHermite y0 y1 m0 m1 t =
     (let t2 = t * t; t3 = t2 * t
      in (2 * t3 - 3 * t2 + 1) * y0 + (t3 - 2 * t2 + t) * m0
         + (- 2 * t3 + 3 * t2) * y1 + (t3 - t2) * m1)"

text \<open>The segment search \<^verbatim>\<open>for i = 1; i < len(points); i++ { if nx < points[i].X { break } }\<close>.\<close>

function findSegment :: "rat \<Rightarrow> BehaviorPoint list \<Rightarrow> nat \<Rightarrow> nat" where
  "findSegment nx points i =
     (if i < length points
      then (if nx < X (points ! i) then i else findSegment nx points (Suc i))
      else i)"
  by pat_completeness auto
termination
  by (relation "measure (\<lambda>(nx, points, i). length points - i)") auto

declare findSegment.simps [simp del]

text \<open>
  \<open>CurveFunction minX maxX minY maxY points\<close> is the closure the source returns, applied
  to its argument \<open>x\<close>. The closure indexes \<open>points\<close> at \<open>i - 1\<close> and \<open>i\<close> after the
  search; the search starts at 1 and stops below \<open>length points\<close> because the clamp
  before it has established \<open>nx < X (last points)\<close> (lemma \<open>findSegment_in_range\<close>).
\<close>

definition CurveFunction ::
  "rat \<Rightarrow> rat \<Rightarrow> rat \<Rightarrow> rat \<Rightarrow> BehaviorPoint list \<Rightarrow> rat \<Rightarrow> rat" where
  "CurveFunction minX maxX minY maxY points x =
     (if length points < 2 then minY
      else
        let nx = normX minX maxX x in
        if nx \<le> X (points ! 0) then denormY minY maxY (Y (points ! 0))
        else if nx \<ge> X (points ! (length points - 1))
          then denormY minY maxY (Y (points ! (length points - 1)))
        else
          let i = findSegment nx points 1;
              prev = points ! (i - 1);
              curr = points ! i;
              dx = X curr - X prev
          in
          if dx = 0 then denormY minY maxY (Y curr)
          else
            let t = (nx - X prev) / dx in
            if Type prev = Break \<or> Type curr = Break
            then denormY minY maxY (Y prev + t * (Y curr - Y prev))
            else
              let mPrev0 = (if i \<ge> 2
                            then (Y curr - Y (points ! (i - 2))) / (X curr - X (points ! (i - 2)))
                            else (Y curr - Y prev) / (X curr - X prev));
                  mCurr0 = (if i + 1 < length points
                            then (Y (points ! (i + 1)) - Y prev) / (X (points ! (i + 1)) - X prev)
                            else (Y curr - Y prev) / (X curr - X prev));
                  mPrev = (if Y curr - Y prev = 0
                              \<or> (mPrev0 \<noteq> 0 \<and> sign mPrev0 \<noteq> sign (Y curr - Y prev))
                           then 0 else mPrev0);
                  mCurr = (if Y curr - Y prev = 0
                              \<or> (mCurr0 \<noteq> 0 \<and> sign mCurr0 \<noteq> sign (Y curr - Y prev))
                           then 0 else mCurr0);
                  y = cubicHermite (Y prev) (Y curr) (mPrev * dx) (mCurr * dx) t;
                  y1 = (if y < 0 then 0 else y);
                  y2 = (if y1 > 1 then 1 else y1)
              in denormY minY maxY y2)"

section \<open>Metrics registry (Metrics in package simulation)\<close>

record timedDuration =
  timestamp :: int
  duration :: int

text \<open>
  The fields of \<^verbatim>\<open>Metrics\<close>. The atomic counters are integers, the three vectors are
  lists in insertion order. The per-group map of active clients and the latest resource
  state, which a snapshot copies out unchanged, are left out.
\<close>

record Metrics =
  ClientBlockedRequests :: int
  ClientSentRequests :: int
  ClientRetryRequests :: int
  ClientSuccessResponses :: int
  ClientErrorResponses :: int
  NetworkFailedRequests :: int
  MinRequestLatency :: int
  MaxRequestLatency :: int
  MinResponseLatency :: int
  MaxResponseLatency :: int
  RequestLatencies :: "timedDuration list"
  ResponseLatencies :: "timedDuration list"
  ServerReceivedRequests :: int
  ServerSuccessResponses :: int
  ServerErrorResponses :: int
  trackDurationsCount :: nat
  ResponseTimes :: "timedDuration list"
  MinResponseTime :: int
  MaxResponseTime :: int
  AvgResponseTime :: int
  P50ResponseTime :: int
  P80ResponseTime :: int
  P95ResponseTime :: int

definition NewMetrics :: Metrics where
  "NewMetrics =
     \<lparr>ClientBlockedRequests = 0, ClientSentRequests = 0, ClientRetryRequests = 0,
      ClientSuccessResponses = 0, ClientErrorResponses = 0, NetworkFailedRequests = 0,
      MinRequestLatency = 0, MaxRequestLatency = 0, MinResponseLatency = 0,
      MaxResponseLatency = 0, RequestLatencies = [], ResponseLatencies = [],
      ServerReceivedRequests = 0, ServerSuccessResponses = 0, ServerErrorResponses = 0,
      trackDurationsCount = 100000, ResponseTimes = [],
      MinResponseTime = 0, MaxResponseTime = 0, AvgResponseTime = 0,
      P50ResponseTime = 0, P80ResponseTime = 0, P95ResponseTime = 0\<rparr>"

text \<open>\<^verbatim>\<open>append\<close> followed by the cut to the last \<^verbatim>\<open>trackDurationsCount\<close> entries.
  The reading of the clock inside the three recorders is their first argument.\<close>

definition appendBounded :: "nat \<Rightarrow> timedDuration \<Rightarrow> timedDuration list \<Rightarrow> timedDuration list" where
  "appendBounded cap td tds =
     (let tds' = tds @ [td]
      in if length tds' > cap then drop (length tds' - cap) tds' else tds')"

definition recordResponseTime :: "int \<Rightarrow> int \<Rightarrow> Metrics \<Rightarrow> Metrics" where
  "recordResponseTime now responseTime m =
     m\<lparr>ResponseTimes := appendBounded (trackDurationsCount m)
          \<lparr>timestamp = now, duration = responseTime\<rparr> (ResponseTimes m)\<rparr>"

definition recordRequestLatency :: "int \<Rightarrow> int \<Rightarrow> Metrics \<Rightarrow> Metrics" where
  "recordRequestLatency now latency m =
     m\<lparr>RequestLatencies := appendBounded (trackDurationsCount m)
          \<lparr>timestamp = now, duration = latency\<rparr> (RequestLatencies m)\<rparr>"

definition recordResponseLatency :: "int \<Rightarrow> int \<Rightarrow> Metrics \<Rightarrow> Metrics" where
  "recordResponseLatency now latency m =
     m\<lparr>ResponseLatencies := appendBounded (trackDurationsCount m)
          \<lparr>timestamp = now, duration = latency\<rparr> (ResponseLatencies m)\<rparr>"

text \<open>The pruning loop keeps an entry when
  \<^verbatim>\<open>tr.timestamp.After(cutoff) || tr.timestamp.Equal(cutoff)\<close>.\<close>

definition prune :: "int \<Rightarrow> timedDuration list \<Rightarrow> timedDuration list" where
  "prune now tds = filter (\<lambda>tr. timestamp tr \<ge> now - Second) tds"

text \<open>The single pass over the window that accumulates \<open>(min, max, sum)\<close>.\<close>

fun windowLoop :: "int list \<Rightarrow> int \<times> int \<times> int \<Rightarrow> int \<times> int \<times> int" where
  "windowLoop [] acc = acc"
| "windowLoop (rt # rts) (mn, mx, sm) =
     windowLoop rts (if rt < mn then rt else mn, if rt > mx then rt else mx, sm + rt)"

text \<open>
  \<^verbatim>\<open>int(float64(len(times)) * p)\<close> followed by the clamp to \<^verbatim>\<open>len(times) - 1\<close>.
  The percentile ranks are the rationals \<open>1/2\<close>, \<open>4/5\<close> and \<open>19/20\<close>; the product in
  \<^verbatim>\<open>float64\<close> truncates to the same index for every length the vectors can have.
\<close>

definition percentileIdx :: "nat \<Rightarrow> rat \<Rightarrow> nat" where
  "percentileIdx n p =
     (let idx = nat (trunc (of_nat n * p))
      in if idx \<ge> n then n - 1 else idx)"

definition calculateSlidingWindowMetrics :: "int \<Rightarrow> Metrics \<Rightarrow> Metrics" where
  "calculateSlidingWindowMetrics now m =
     (let window = prune now (ResponseTimes m);
          m1 = m\<lparr>ResponseTimes := window\<rparr>
      in if length window > 0
         then
           let d0 = duration (hd window);
               (mn, mx, sm) = windowLoop (map duration window) (d0, d0, 0);
               times = sort (map duration window);
               n = length times
           in m1\<lparr>MinResponseTime := mn, MaxResponseTime := mx,
                 AvgResponseTime := quot sm (int (length window)),
                 P50ResponseTime := times ! percentileIdx n (1 / 2),
                 P80ResponseTime := times ! percentileIdx n (4 / 5),
                 P95ResponseTime := times ! percentileIdx n (19 / 20)\<rparr>
         else m1\<lparr>MinResponseTime := 0, MaxResponseTime := 0, AvgResponseTime := 0,
                 P50ResponseTime := 0, P80ResponseTime := 0, P95ResponseTime := 0\<rparr>)"

definition calculateNetworkLatencyMetrics :: "int \<Rightarrow> Metrics \<Rightarrow> Metrics" where
  "calculateNetworkLatencyMetrics now m =
     (let reqs = prune now (RequestLatencies m);
          m1 = m\<lparr>RequestLatencies := reqs\<rparr>;
          m2 = (if length reqs > 0
                then let d0 = duration (hd reqs);
                         (mn, mx, sm) = windowLoop (map duration reqs) (d0, d0, 0)
                     in m1\<lparr>MinRequestLatency := mn, MaxRequestLatency := mx\<rparr>
                else m1\<lparr>MinRequestLatency := 0, MaxRequestLatency := 0\<rparr>);
          resps = prune now (ResponseLatencies m2);
          m3 = m2\<lparr>ResponseLatencies := resps\<rparr>
      in if length resps > 0
         then let d0 = duration (hd resps);
                  (mn, mx, sm) = windowLoop (map duration resps) (d0, d0, 0)
              in m3\<lparr>MinResponseLatency := mn, MaxResponseLatency := mx\<rparr>
         else m3\<lparr>MinResponseLatency := 0, MaxResponseLatency := 0\<rparr>)"

text \<open>The entries of the map a snapshot returns that come from \<^verbatim>\<open>Metrics\<close> itself.\<close>

record Snapshot =
  client_blocked_req :: int
  client_sent_req :: int
  client_retry_req :: int
  client_success_resp :: int
  client_error_resp :: int
  network_failed_reqs :: int
  server_received_req :: int
  server_success_resp :: int
  server_error_resp :: int
  min_response_time :: int
  max_response_time :: int
  avg_response_time :: int
  p50_response_time :: int
  p80_response_time :: int
  p95_response_time :: int
  min_request_latency :: int
  max_request_latency :: int
  min_response_latency :: int
  max_response_latency :: int
  snapshot_timestamp :: int

text \<open>\<^verbatim>\<open>Duration.Milliseconds()\<close> and \<^verbatim>\<open>Time.UnixMilli()\<close>.\<close>

definition Milliseconds :: "int \<Rightarrow> int" where
  "Milliseconds d = quot d Millisecond"

text \<open>
  \<open>GetSnapshot now m\<close>: \<open>now\<close> is the clock reading the source takes first. The values
  for the map are read from the fields of \<open>m\<close> in the order of the source, and the two
  recomputations run after these reads; the pair returned is the map and the registry as
  the call leaves it.
\<close>

definition GetSnapshot :: "int \<Rightarrow> Metrics \<Rightarrow> Snapshot \<times> Metrics" where
  "GetSnapshot now m =
     (let minResponseTime = Milliseconds (MinResponseTime m);
          maxResponseTime = Milliseconds (MaxResponseTime m);
          avgResponseTime = Milliseconds (AvgResponseTime m);
          p50ResponseTime = Milliseconds (P50ResponseTime m);
          p80ResponseTime = Milliseconds (P80ResponseTime m);
          p95ResponseTime = Milliseconds (P95ResponseTime m);
          minRequestLatency = Milliseconds (MinRequestLatency m);
          maxRequestLatency = Milliseconds (MaxRequestLatency m);
          minResponseLatency = Milliseconds (MinResponseLatency m);
          maxResponseLatency = Milliseconds (MaxResponseLatency m);
          m' = calculateNetworkLatencyMetrics now (calculateSlidingWindowMetrics now m)
      in (\<lparr>client_blocked_req = ClientBlockedRequests m,
           client_sent_req = ClientSentRequests m,
           client_retry_req = ClientRetryRequests m,
           client_success_resp = ClientSuccessResponses m,
           client_error_resp = ClientErrorResponses m,
           network_failed_reqs = NetworkFailedRequests m,
           server_received_req = ServerReceivedRequests m,
           server_success_resp = ServerSuccessResponses m,
           server_error_resp = ServerErrorResponses m,
           min_response_time = minResponseTime,
           max_response_time = maxResponseTime,
           avg_response_time = avgResponseTime,
           p50_response_time = p50ResponseTime,
           p80_response_time = p80ResponseTime,
           p95_response_time = p95ResponseTime,
           min_request_latency = minRequestLatency,
           max_request_latency = maxRequestLatency,
           min_response_latency = minResponseLatency,
           max_response_latency = maxResponseLatency,
           snapshot_timestamp = quot now Millisecond\<rparr>, m'))"

section \<open>Requests, responses and cooperative sleep (internal/simulation/common.go)\<close>

text \<open>The request's \<^verbatim>\<open>Meta\<close> dictionary belongs to the script state of the client.\<close>

record Request =
  ReqId :: string
  ClientId :: string
  ReqData :: string
  ReqTimestamp :: int

record Response =
  RespId :: string
  Ok :: bool
  Data :: string
  Error :: string
  Timestamp :: int

definition zeroResponse :: Response where
  "zeroResponse = \<lparr>RespId = '''', Ok = False, Data = '''', Error = '''', Timestamp = 0\<rparr>"

text \<open>
  Time is a virtual clock in nanoseconds. A context is the instant at which it is
  cancelled, if ever. \<open>SleepWithContext ctx now d\<close> returns the error of the source and
  the clock at which it returns: the timer fires at \<open>now + d\<close> (at once when \<open>d \<le> 0\<close>),
  the cancellation at the context's instant; when both are ready together the first
  case of the \<^verbatim>\<open>select\<close>, the cancellation, is taken.
\<close>

type_synonym Context = "int option"

definition ctxDone :: "Context \<Rightarrow> int \<Rightarrow> bool" where
  "ctxDone ctx now = (case ctx of None \<Rightarrow> False | Some c \<Rightarrow> c \<le> now)"

definition ctxErr :: string where
  "ctxErr = ''context canceled''"

definition SleepWithContext :: "Context \<Rightarrow> int \<Rightarrow> int \<Rightarrow> error \<times> int" where
  "SleepWithContext ctx now d =
     (let fire = now + max d 0
      in case ctx of
           None \<Rightarrow> (None, fire)
         | Some c \<Rightarrow> if c \<le> fire then (Some ctxErr, max c now) else (None, fire))"

section \<open>Server (Server in package simulation)\<close>

record ResourceSettings =
  MaxConcurrentRequests :: int
  MaxMemoryMB :: int
  MaxQueueSize :: int
  MemoryLeakRateMBPerSec :: rat
  MemoryPerRequestMB :: rat
  GCPauseIntervalSec :: rat
  GCPauseDurationMs :: rat

record ResourceState =
  ActiveRequests :: int
  CurrentMemoryMB :: int
  CPUUtilization :: rat
  MemoryUtilization :: rat
  QueueUtilization :: rat
  ThreadsUtilization :: rat
  AverageQueueTimeMs :: rat
  MaxQueueTimeMs :: rat

record ServerBehavior =
  To :: int
  ResponseTimeFrom :: int
  ResponseTimeTo :: int
  Errors :: "BehaviorPoint list"
  ResponseTimeMin :: "BehaviorPoint list"
  ResponseTimeMax :: "BehaviorPoint list"
  EnableResourceManagement :: bool
  Resources :: ResourceSettings

text \<open>
  The fields of \<^verbatim>\<open>Server\<close> that request handling and the resource manager read or
  write. \<open>behaviorStartTime = None\<close> is the zero \<^verbatim>\<open>time.Time\<close>. The request queue is
  its length \<open>queued\<close>, its capacity \<open>queueCap\<close>, fixed by \<^verbatim>\<open>Start\<close> to
  \<^verbatim>\<open>MaxQueueSize\<close>, and \<open>waitingWorkers\<close>, the number of workers blocked in their
  receive from the queue (a send to a waiting worker succeeds whatever the capacity);
  \<open>srvCtx\<close> is the server's context.
\<close>

record Server =
  behavior :: ServerBehavior
  behaviorStartTime :: "int option"
  getErrorRate :: "rat \<Rightarrow> rat"
  getResponseTimeMin :: "rat \<Rightarrow> rat"
  getResponseTimeMax :: "rat \<Rightarrow> rat"
  resourceSettings :: ResourceSettings
  resourceState :: ResourceState
  lastGCTime :: int
  queued :: nat
  queueCap :: nat
  waitingWorkers :: nat
  srvCtx :: Context

definition zeroResourceState :: ResourceState where
  "zeroResourceState =
     \<lparr>ActiveRequests = 0, CurrentMemoryMB = 0, CPUUtilization = 0, MemoryUtilization = 0,
      QueueUtilization = 0, ThreadsUtilization = 0, AverageQueueTimeMs = 0,
      MaxQueueTimeMs = 0\<rparr>"

definition setupCurveFunctions :: "Server \<Rightarrow> Server" where
  "setupCurveFunctions s =
     (let b = behavior s
      in s\<lparr>getErrorRate := CurveFunction 0 (of_int (To b) * 1000) 0 1 (Errors b),
            getResponseTimeMin :=
              CurveFunction 0 (of_int (To b) * 1000) (of_int (ResponseTimeFrom b))
                (of_int (ResponseTimeTo b)) (ResponseTimeMin b),
            getResponseTimeMax :=
              CurveFunction 0 (of_int (To b) * 1000) (of_int (ResponseTimeFrom b))
                (of_int (ResponseTimeTo b)) (ResponseTimeMax b)\<rparr>)"

definition defaultServerBehavior :: ServerBehavior where
  "defaultServerBehavior =
     \<lparr>To = 0, ResponseTimeFrom = 0, ResponseTimeTo = 100,
      Errors = [\<lparr>X = 0, Y = 0, Type = Curve\<rparr>, \<lparr>X = 1, Y = 0, Type = Curve\<rparr>],
      ResponseTimeMin = [\<lparr>X = 0, Y = 1 / 10, Type = Curve\<rparr>, \<lparr>X = 1, Y = 1 / 10, Type = Curve\<rparr>],
      ResponseTimeMax = [\<lparr>X = 0, Y = 1 / 2, Type = Curve\<rparr>, \<lparr>X = 1, Y = 1 / 2, Type = Curve\<rparr>],
      EnableResourceManagement = False,
      Resources = \<lparr>MaxConcurrentRequests = 100, MaxMemoryMB = 1024, MaxQueueSize = 500,
        MemoryLeakRateMBPerSec = 1 / 10, MemoryPerRequestMB = 2, GCPauseIntervalSec = 10,
        GCPauseDurationMs = 50\<rparr>\<rparr>"

definition NewServer :: Server where
  "NewServer =
     setupCurveFunctions
       \<lparr>behavior = defaultServerBehavior, behaviorStartTime = None,
        getErrorRate = (\<lambda>x. 0), getResponseTimeMin = (\<lambda>x. 0), getResponseTimeMax = (\<lambda>x. 0),
        resourceSettings = Resources defaultServerBehavior,
        resourceState = zeroResourceState, lastGCTime = 0, queued = 0, queueCap = 0,
        waitingWorkers = 0, srvCtx = None\<rparr>"

definition SetBehavior :: "ServerBehavior \<Rightarrow> Server \<Rightarrow> Server" where
  "SetBehavior b s =
     setupCurveFunctions
       (s\<lparr>behavior := b, resourceSettings := Resources b, behaviorStartTime := None\<rparr>)"

text \<open>\<^verbatim>\<open>Start\<close> of a server that is not running yet, at clock \<open>now\<close> under the
  simulation's context; in managed mode the workers it spawns wait at the empty queue.\<close>

definition StartServer :: "Context \<Rightarrow> int \<Rightarrow> Server \<Rightarrow> Server" where
  "StartServer simulationCtx now s =
     (if EnableResourceManagement (behavior s)
      then s\<lparr>srvCtx := simulationCtx, resourceState := zeroResourceState,
             queued := 0, queueCap := nat (MaxQueueSize (resourceSettings s)),
             waitingWorkers := nat (MaxConcurrentRequests (resourceSettings s)),
             lastGCTime := now\<rparr>
      else s\<lparr>srvCtx := simulationCtx\<rparr>)"

text \<open>
  \<open>updateResources pow15 now s\<close> is one tick of the resource manager at clock \<open>now\<close>.
  \<open>pow15 x\<close> stands for \<^verbatim>\<open>math.Pow(x, 1.5)\<close>, which is irrational in general and is
  therefore a parameter. \<^verbatim>\<open>int64(f)\<close> is \<open>trunc f\<close>, the division of two \<^verbatim>\<open>int64\<close> is
  \<open>quot\<close>. The push of the new state to the metrics registry is left out with the
  registry's resource fields.
\<close>

definition updateResources :: "(rat \<Rightarrow> rat) \<Rightarrow> int \<Rightarrow> Server \<Rightarrow> Server" where
  "updateResources pow15 now s =
     (let st = resourceState s;
          cfg = resourceSettings s;
          activeReqs = ActiveRequests st;
          maxReqs = MaxConcurrentRequests cfg;
          threads = of_int activeReqs / of_int maxReqs;
          loadFactor = threads;
          targetCPU = pow15 loadFactor * (95 / 100);
          cpu0 = CPUUtilization st + (targetCPU - CPUUtilization st) * (3 / 10);
          cpu1 = (if cpu0 > 1 then 1 else cpu0);
          cpu = (if cpu1 < 0 then 0 else cpu1);
          baseMemoryMB = of_int maxReqs * (1 / 2);
          requestMemoryMB = of_int activeReqs * MemoryPerRequestMB cfg;
          targetMemoryMB = baseMemoryMB + requestMemoryMB;
          mem0 = (if loadFactor > 1 / 10
                  then CurrentMemoryMB st
                       + trunc (MemoryLeakRateMBPerSec cfg * (1 / 10) * loadFactor)
                  else CurrentMemoryMB st);
          currentTarget = trunc targetMemoryMB;
          mem1 = (if mem0 < currentTarget then mem0 + quot (currentTarget - mem0) 2
                  else if mem0 > currentTarget \<and> loadFactor < 1 / 10
                    then mem0 - quot (mem0 - currentTarget) 20
                  else mem0);
          maxMem = MaxMemoryMB cfg;
          currentMem = (if mem1 > maxMem then maxMem else mem1);
          memUtil = of_int currentMem / of_int maxMem;
          gc = (of_int (now - lastGCTime s) / of_int Second > GCPauseIntervalSec cfg);
          targetAfterGC = trunc (targetMemoryMB * (11 / 10));
          mem2 = (if gc \<and> currentMem > targetAfterGC then targetAfterGC else currentMem);
          queueUtil = of_nat (queued s) / of_nat (queueCap s)
      in s\<lparr>resourceState :=
              st\<lparr>ThreadsUtilization := threads, CPUUtilization := cpu,
                 CurrentMemoryMB := mem2, MemoryUtilization := memUtil,
                 QueueUtilization := queueUtil\<rparr>,
            lastGCTime := (if gc then now else lastGCTime s)\<rparr>)"

text \<open>
  The resource manager's loop: the ticker fires every 100 ms; \<open>resourceManager pow15 n now s\<close>
  runs the next \<open>n\<close> ticks after clock \<open>now\<close> while nothing else touches the server
  (the number of active requests stays as it is: constant load).
\<close>

fun resourceManager :: "(rat \<Rightarrow> rat) \<Rightarrow> nat \<Rightarrow> int \<Rightarrow> Server \<Rightarrow> Server" where
  "resourceManager pow15 0 now s = s"
| "resourceManager pow15 (Suc n) now s =
     resourceManager pow15 n (now + 100 * Millisecond)
       (updateResources pow15 (now + 100 * Millisecond) s)"

definition getResourceImpact :: "Server \<Rightarrow> rat \<times> rat" where
  "getResourceImpact s =
     (let st = resourceState s;
          m0 = 1;
          m1 = (if CPUUtilization st > 7 / 10
                then m0 * (1 + CPUUtilization st ^ 3 * 2) else m0);
          m2 = (if MemoryUtilization st > 8 / 10
                then m1 * (1 + ((MemoryUtilization st - 8 / 10) / (2 / 10)) * 3) else m1);
          m3 = (if ThreadsUtilization st > 7 / 10
                then m2 * (1 + ThreadsUtilization st ^ 2) else m2);
          e0 = 0;
          e1 = (if CPUUtilization st > 9 / 10
                then e0 + (CPUUtilization st - 9 / 10) * (1 / 2) else e0);
          e2 = (if MemoryUtilization st > 9 / 10
                then e1 + (MemoryUtilization st - 9 / 10) * (3 / 10) else e1)
      in (m3, e2))"

definition getGCPause :: "int \<Rightarrow> Server \<Rightarrow> rat" where
  "getGCPause now s =
     (let timeSinceGC = Milliseconds (now - lastGCTime s)
      in if of_int timeSinceGC < GCPauseDurationMs (resourceSettings s)
         then GCPauseDurationMs (resourceSettings s) else 0)"

text \<open>
  The sampling block of \<^verbatim>\<open>processRequest\<close>: the two evaluated curve values are put in
  order, equal values are used as they are, otherwise \<open>normDraw\<close> (the draw of
  \<^verbatim>\<open>rand.NormFloat64()\<close>) is scaled and the sample is raised to 0 when negative.
\<close>

definition sampleWorkMs :: "rat \<Rightarrow> rat \<Rightarrow> rat \<Rightarrow> rat" where
  "sampleWorkMs responseTimeMin responseTimeMax normDraw =
     (let mn = (if responseTimeMin > responseTimeMax then responseTimeMax else responseTimeMin);
          mx = (if responseTimeMin > responseTimeMax then responseTimeMin else responseTimeMax)
      in if mn = mx then mn
         else
           let mean = (mn + mx) / 2;
               stddev = (mx - mn) / 6;
               workMs = normDraw * stddev + mean
           in if workMs < 0 then 0 else workMs)"

text \<open>The work duration \<^verbatim>\<open>processRequest\<close> sleeps for, in nanoseconds.\<close>

definition workDuration :: "bool \<Rightarrow> int \<Rightarrow> rat \<Rightarrow> Server \<Rightarrow> int" where
  "workDuration resourceManagementEnabled now normDraw s =
     (let responseTimeMultiplier =
            (if resourceManagementEnabled then fst (getResourceImpact s) else 1);
          behaviorStart = (case behaviorStartTime s of None \<Rightarrow> now | Some t \<Rightarrow> t);
          elapsedMs = of_int (Milliseconds (now - behaviorStart));
          workMs0 = sampleWorkMs (getResponseTimeMin s elapsedMs)
                      (getResponseTimeMax s elapsedMs) normDraw;
          workMs1 = workMs0 * responseTimeMultiplier;
          workMs = (if resourceManagementEnabled then workMs1 + getGCPause now s else workMs1)
      in trunc (workMs * of_int Millisecond))"

text \<open>
  \<open>processRequest req managed now normDraw u s\<close>: \<open>normDraw\<close> and \<open>u\<close> are the draws of
  \<^verbatim>\<open>rand.NormFloat64()\<close> and \<^verbatim>\<open>rand.Float64()\<close>. The result is the response, the
  error, the clock at return and the server (whose behavior start time the call may set).
\<close>

definition processRequest ::
  "Request \<Rightarrow> bool \<Rightarrow> int \<Rightarrow> rat \<Rightarrow> rat \<Rightarrow> Server \<Rightarrow> (Response \<times> error) \<times> int \<times> Server" where
  "processRequest req resourceManagementEnabled now normDraw u s =
     (let additionalErrorRate =
            (if resourceManagementEnabled then snd (getResourceImpact s) else 0);
          behaviorStart = (case behaviorStartTime s of None \<Rightarrow> now | Some t \<Rightarrow> t);
          s' = s\<lparr>behaviorStartTime := Some behaviorStart\<rparr>;
          elapsedMs = of_int (Milliseconds (now - behaviorStart));
          (err, now') = SleepWithContext (srvCtx s) now
                          (workDuration resourceManagementEnabled now normDraw s)
      in case err of
           Some e \<Rightarrow> ((zeroResponse, Some e), now', s')
         | None \<Rightarrow>
             let baseErrorRate = getErrorRate s elapsedMs;
                 total0 = baseErrorRate + additionalErrorRate;
                 totalErrorRate = (if total0 > 1 then 1 else total0)
             in if totalErrorRate > 0 \<and> u < totalErrorRate
                then ((\<lparr>RespId = ReqId req, Ok = False, Data = '''',
                         Error = ''Server Error'', Timestamp = now'\<rparr>,
                       Some ''server error''), now', s')
                else ((\<lparr>RespId = ReqId req, Ok = True, Data = ''OK'', Error = '''',
                         Timestamp = now'\<rparr>, None), now', s'))"

text \<open>
  \<open>handleRequestWithResources now reply s\<close>: admission at clock \<open>now\<close>. A request that
  passes the memory check, finds the context alive and finds a waiting worker or room in
  the queue is enqueued; what then arrives for it is \<open>reply\<close>: \<open>Some (r, t)\<close> when the reply channel
  yields \<open>r\<close> at clock \<open>t\<close>, \<open>None\<close> when the server's context is cancelled first.
\<close>

definition handleRequestWithResources ::
  "int \<Rightarrow> ((Response \<times> error) \<times> int) option \<Rightarrow> Server \<Rightarrow> (Response \<times> error) \<times> int \<times> Server" where
  "handleRequestWithResources now reply s =
     (let memUtil = MemoryUtilization (resourceState s)
      in if memUtil > 98 / 100 then ((zeroResponse, Some ''server out of memory''), now, s)
         else if ctxDone (srvCtx s) now then ((zeroResponse, Some ctxErr), now, s)
         else if 0 < waitingWorkers s \<or> queued s < queueCap s
           then
             (let s' = (if 0 < waitingWorkers s
                        then s\<lparr>waitingWorkers := waitingWorkers s - 1\<rparr>
                        else s\<lparr>queued := Suc (queued s)\<rparr>)
              in case reply of
                   Some (r, t) \<Rightarrow> (r, t, s')
                 | None \<Rightarrow> ((zeroResponse, Some ctxErr),
                             (case srvCtx s of Some c \<Rightarrow> max c now | None \<Rightarrow> now), s'))
         else ((zeroResponse, Some ''server queue full''), now, s))"

text \<open>\<open>HandleRequest\<close> routes by the behavior's resource-management switch.\<close>

definition HandleRequest ::
  "Request \<Rightarrow> int \<Rightarrow> rat \<Rightarrow> rat \<Rightarrow> ((Response \<times> error) \<times> int) option \<Rightarrow> Server
     \<Rightarrow> (Response \<times> error) \<times> int \<times> Server" where
  "HandleRequest req now normDraw u reply s =
     (if EnableResourceManagement (behavior s)
      then handleRequestWithResources now reply s
      else processRequest req False now normDraw u s)"

section \<open>Network (Network in package simulation)\<close>

record Network =
  netBehaviorStartTime :: "int option"
  getDropRate :: "rat \<Rightarrow> rat"
  getLatencyMin :: "rat \<Rightarrow> rat"
  getLatencyMax :: "rat \<Rightarrow> rat"

text \<open>
  The latency sample of \<^verbatim>\<open>oneWayTrip\<close> in milliseconds, after \<^verbatim>\<open>math.Max(latencyMs, 1)\<close>.
\<close>

definition sampleLatencyMs :: "rat \<Rightarrow> rat \<Rightarrow> rat \<Rightarrow> rat" where
  "sampleLatencyMs minLatency maxLatency normDraw =
     (let mn = (if minLatency > maxLatency then maxLatency else minLatency);
          mx = (if minLatency > maxLatency then minLatency else maxLatency);
          latencyMs = (if mn = mx then mn
                       else let mean = (mn + mx) / 2; stddev = (mx - mn) / 6
                            in normDraw * stddev + mean)
      in max latencyMs 1)"

text \<open>
  \<open>oneWayTrip ctx now elapsedMs normDraw u n\<close> returns the latency, the error and the clock at
  return. \<^verbatim>\<open>time.Duration(latencyMs) * time.Millisecond\<close> truncates to whole milliseconds.
\<close>

definition oneWayTrip ::
  "Context \<Rightarrow> int \<Rightarrow> rat \<Rightarrow> rat \<Rightarrow> rat \<Rightarrow> Network \<Rightarrow> int \<times> error \<times> int" where
  "oneWayTrip ctx now elapsedMs normDraw u n =
     (let latencyMs = sampleLatencyMs (getLatencyMin n elapsedMs) (getLatencyMax n elapsedMs) normDraw;
          latency = trunc latencyMs * Millisecond;
          (err, now') = SleepWithContext ctx now latency
      in case err of
           Some e \<Rightarrow> (latency, Some e, now')
         | None \<Rightarrow>
             let dropRate = getDropRate n elapsedMs
             in if dropRate > 0 \<and> u < dropRate then (latency, Some ''packet lost'', now')
                else (latency, None, now'))"

text \<open>The four draws one \<^verbatim>\<open>Send\<close> may consume, forward trip first.\<close>

record Draws =
  normFwd :: rat
  dropFwd :: rat
  normRet :: rat
  dropRet :: rat

text \<open>
  \<open>Send ctx now d handle n m\<close>: \<open>handle t\<close> is the call \<^verbatim>\<open>n.server.HandleRequest(ctx, req)\<close>
  made at clock \<open>t\<close>, giving the server's response, error and the clock at return. The
  result is the response and error handed to the caller, the clock at return, and the
  network and the metrics registry as the call leaves them.
\<close>

definition Send ::
  "Context \<Rightarrow> int \<Rightarrow> Draws \<Rightarrow> (int \<Rightarrow> (Response \<times> error) \<times> int) \<Rightarrow> Network \<Rightarrow> Metrics
     \<Rightarrow> (Response \<times> error) \<times> int \<times> Network \<times> Metrics" where
  "Send ctx now d handle n m =
     (let behaviorStart = (case netBehaviorStartTime n of None \<Rightarrow> now | Some t \<Rightarrow> t);
          n' = n\<lparr>netBehaviorStartTime := Some behaviorStart\<rparr>;
          elapsedMs = of_int (Milliseconds (now - behaviorStart));
          (requestLatency, requestLostErr, now1) =
             oneWayTrip ctx now elapsedMs (normFwd d) (dropFwd d) n;
          m1 = recordRequestLatency now1 requestLatency m
      in case requestLostErr of
           Some e \<Rightarrow> ((zeroResponse, Some e), now1, n', m1)
         | None \<Rightarrow>
             let m2 = m1\<lparr>ServerReceivedRequests := ServerReceivedRequests m1 + 1\<rparr>;
                 ((resp, err), now2) = handle now1;
                 m3 = (if err = None \<and> Ok resp
                       then m2\<lparr>ServerSuccessResponses := ServerSuccessResponses m2 + 1\<rparr>
                       else m2\<lparr>ServerErrorResponses := ServerErrorResponses m2 + 1\<rparr>);
                 resp' = (if err = None \<and> Ok resp then resp
                          else let r1 = resp\<lparr>Ok := False\<rparr>
                               in (case err of
                                     Some e \<Rightarrow> if Error r1 = '''' then r1\<lparr>Error := e\<rparr> else r1
                                   | None \<Rightarrow> r1));
                 elapsedMs2 = of_int (Milliseconds (now2 - behaviorStart));
                 (responseLatency, responseLostErr, now3) =
                    oneWayTrip ctx now2 elapsedMs2 (normRet d) (dropRet d) n;
                 m4 = recordResponseLatency now3 responseLatency m3
             in case responseLostErr of
                  Some e \<Rightarrow> ((zeroResponse, Some e), now3, n', m4)
                | None \<Rightarrow> ((resp', None), now3, n', m4))"

definition NewNetwork :: Network where
  "NewNetwork =
     \<lparr>netBehaviorStartTime = None,
      getDropRate = CurveFunction 0 0 0 1
        [\<lparr>X = 0, Y = 0, Type = Curve\<rparr>, \<lparr>X = 1, Y = 0, Type = Curve\<rparr>],
      getLatencyMin = CurveFunction 0 0 0 100
        [\<lparr>X = 0, Y = 1 / 10, Type = Curve\<rparr>, \<lparr>X = 1, Y = 1 / 10, Type = Curve\<rparr>],
      getLatencyMax = CurveFunction 0 0 0 100
        [\<lparr>X = 0, Y = 4 / 10, Type = Curve\<rparr>, \<lparr>X = 1, Y = 4 / 10, Type = Curve\<rparr>]\<rparr>"

section \<open>Behavior interpreter (internal/simulation/clientstarlark.go)\<close>

text \<open>The values a hook of a script can return.\<close>

datatype Value =
    NoneV
  | BoolV bool
  | IntV int
  | FloatV rat
  | StringV string
  | ListV "Value list"
  | DictV "(Value \<times> Value) list"

text \<open>\<^verbatim>\<open>v.Truth()\<close>: the empty and zero values are false.\<close>

fun Truth :: "Value \<Rightarrow> bool" where
  "Truth NoneV = False"
| "Truth (BoolV b) = b"
| "Truth (IntV i) = (i \<noteq> 0)"
| "Truth (FloatV f) = (f \<noteq> 0)"
| "Truth (StringV s) = (s \<noteq> [])"
| "Truth (ListV vs) = (vs \<noteq> [])"
| "Truth (DictV kvs) = (kvs \<noteq> [])"

text \<open>\<^verbatim>\<open>starlark.AsInt32\<close>: an integer representable in 32 bits, else an error.\<close>

fun AsInt32 :: "Value \<Rightarrow> int option" where
  "AsInt32 (IntV i) = (if - 2147483648 \<le> i \<and> i \<le> 2147483647 then Some i else None)"
| "AsInt32 v = None"

definition parseOnRequestResult :: "Value \<Rightarrow> bool \<times> int \<times> int" where
  "parseOnRequestResult result =
     (case result of
        DictV dict \<Rightarrow>
          (let allow = (case map_of dict (StringV ''allow'') of
                          Some v \<Rightarrow> Truth v | None \<Rightarrow> True);
               delayMs = (case map_of dict (StringV ''delay'') of
                            Some v \<Rightarrow> (case AsInt32 v of Some i \<Rightarrow> i | None \<Rightarrow> 0)
                          | None \<Rightarrow> 0);
               timeoutMs = (case map_of dict (StringV ''timeout'') of
                              Some v \<Rightarrow> (case AsInt32 v of Some i \<Rightarrow> i | None \<Rightarrow> 0)
                            | None \<Rightarrow> 0)
           in (allow, delayMs, timeoutMs))
      | _ \<Rightarrow> (True, 0, 0))"

record scriptResult =
  allow :: bool
  delayMs :: int
  timeoutMs :: int
  err :: error

definition zeroResult :: scriptResult where
  "zeroResult = \<lparr>allow = False, delayMs = 0, timeoutMs = 0, err = None\<rparr>"

text \<open>
  A loaded script: each hook is absent or a callable. A call of a hook is a function of
  the script state \<open>'s\<close> (the thread-local state of the executor together with the
  request's \<^verbatim>\<open>meta\<close> dictionary, both of which the hook may mutate) that returns the
  hook's value or, as \<open>Inl\<close>, the error it raised, and the state it leaves. The request
  is fixed during one run of the client's request loop and is not an argument; response
  and transport error are.
\<close>

record 's StarlarkClientBehavior =
  onRequest :: "('s \<Rightarrow> (string + Value) \<times> 's) option"
  onResponse :: "(Response \<Rightarrow> 's \<Rightarrow> (string + Value) \<times> 's) option"
  onError :: "(Response \<Rightarrow> 's \<Rightarrow> (string + Value) \<times> 's) option"
  onFail :: "(string \<Rightarrow> 's \<Rightarrow> (string + Value) \<times> 's) option"
  onRetry :: "(Response option \<Rightarrow> error \<Rightarrow> 's \<Rightarrow> (string + Value) \<times> 's) option"

datatype scriptExecution =
    execOnRequest
  | execOnResponse Response
  | execOnError Response
  | execOnFail string
  | execOnRetry "Response option" error

fun executeFunction ::
  "'s StarlarkClientBehavior \<Rightarrow> scriptExecution \<Rightarrow> 's \<Rightarrow> scriptResult \<times> 's" where
  "executeFunction b execOnRequest st =
     (case onRequest b of
        None \<Rightarrow> (zeroResult\<lparr>allow := True\<rparr>, st)
      | Some f \<Rightarrow>
          (case f st of
             (Inl e, st') \<Rightarrow> (zeroResult\<lparr>err := Some (''on_request error: '' @ e)\<rparr>, st')
           | (Inr v, st') \<Rightarrow>
               (case parseOnRequestResult v of
                  (a, d, t) \<Rightarrow> (zeroResult\<lparr>allow := a, delayMs := d, timeoutMs := t\<rparr>, st'))))"
| "executeFunction b (execOnResponse resp) st =
     (case onResponse b of
        None \<Rightarrow> (zeroResult, st)
      | Some f \<Rightarrow>
          (case f resp st of
             (Inl e, st') \<Rightarrow> (zeroResult\<lparr>err := Some (''on_response error: '' @ e)\<rparr>, st')
           | (Inr v, st') \<Rightarrow> (zeroResult, st')))"
| "executeFunction b (execOnError resp) st =
     (case onError b of
        None \<Rightarrow> (zeroResult, st)
      | Some f \<Rightarrow>
          (case f resp st of
             (Inl e, st') \<Rightarrow> (zeroResult\<lparr>err := Some (''on_error error: '' @ e)\<rparr>, st')
           | (Inr v, st') \<Rightarrow> (zeroResult, st')))"
| "executeFunction b (execOnFail rerr) st =
     (case onFail b of
        None \<Rightarrow> (zeroResult, st)
      | Some f \<Rightarrow>
          (case f rerr st of
             (Inl e, st') \<Rightarrow> (zeroResult\<lparr>err := Some (''on_fail error: '' @ e)\<rparr>, st')
           | (Inr v, st') \<Rightarrow> (zeroResult, st')))"
| "executeFunction b (execOnRetry resp rerr) st =
     (case onRetry b of
        None \<Rightarrow> (zeroResult, st)
      | Some f \<Rightarrow>
          (case f resp rerr st of
             (Inl e, st') \<Rightarrow> (zeroResult\<lparr>err := Some (''on_retry error: '' @ e)\<rparr>, st')
           | (Inr v, st') \<Rightarrow>
               (case parseOnRequestResult v of
                  (a, d, t) \<Rightarrow> (zeroResult\<lparr>allow := a, delayMs := d\<rparr>, st'))))"

text \<open>
  The interface \<^verbatim>\<open>ClientBehavior\<close>. The first argument of each method says whether the
  behavior's stop channel is closed when the method is called; the client's request loop
  takes it to be closed from the instant its context is cancelled (\<^verbatim>\<open>Client.Stop\<close>
  cancels the context and closes the behavior in sequence).
\<close>

record 's ClientBehavior =
  OnRequest :: "bool \<Rightarrow> 's \<Rightarrow> (bool \<times> int \<times> int \<times> error) \<times> 's"
  OnResponse :: "bool \<Rightarrow> Response \<Rightarrow> 's \<Rightarrow> error \<times> 's"
  OnError :: "bool \<Rightarrow> Response \<Rightarrow> 's \<Rightarrow> error \<times> 's"
  OnFail :: "bool \<Rightarrow> string \<Rightarrow> 's \<Rightarrow> error \<times> 's"
  OnRetry :: "bool \<Rightarrow> Response option \<Rightarrow> error \<Rightarrow> 's \<Rightarrow> (bool \<times> int \<times> error) \<times> 's"

text \<open>
  The methods of \<^verbatim>\<open>StarlarkClientBehavior\<close>: the work item goes to the executor, which
  runs \<open>executeFunction\<close>; with the stop channel closed the method returns its defaults.
\<close>

definition StarlarkBehavior :: "'s StarlarkClientBehavior \<Rightarrow> 's ClientBehavior" where
  "StarlarkBehavior b =
     \<lparr>OnRequest = (\<lambda>stopped st.
        if stopped then ((False, 0, 0, None), st)
        else case executeFunction b execOnRequest st of
               (r, st') \<Rightarrow> ((allow r, delayMs r, timeoutMs r, err r), st')),
      OnResponse = (\<lambda>stopped resp st.
        if stopped then (None, st)
        else case executeFunction b (execOnResponse resp) st of (r, st') \<Rightarrow> (err r, st')),
      OnError = (\<lambda>stopped resp st.
        if stopped then (None, st)
        else case executeFunction b (execOnError resp) st of (r, st') \<Rightarrow> (err r, st')),
      OnFail = (\<lambda>stopped rerr st.
        if stopped then (None, st)
        else case executeFunction b (execOnFail rerr) st of (r, st') \<Rightarrow> (err r, st')),
      OnRetry = (\<lambda>stopped resp rerr st.
        if stopped then ((False, 0, None), st)
        else case executeFunction b (execOnRetry resp rerr) st of
               (r, st') \<Rightarrow> ((allow r, delayMs r, err r), st'))\<rparr>"

definition NoopClientBehavior :: "'s ClientBehavior" where
  "NoopClientBehavior =
     \<lparr>OnRequest = (\<lambda>stopped st. ((True, 0, 0, None), st)),
      OnResponse = (\<lambda>stopped resp st. (None, st)),
      OnError = (\<lambda>stopped resp st. (None, st)),
      OnFail = (\<lambda>stopped rerr st. (None, st)),
      OnRetry = (\<lambda>stopped resp rerr st. ((False, 0, None), st))\<rparr>"

section \<open>Client (Client in package simulation)\<close>

text \<open>
  What surrounds one run of \<^verbatim>\<open>requestWithHooks\<close>: the client's context, and the network:
  \<open>network w k t\<close> is the \<open>k\<close>-th call \<^verbatim>\<open>c.network.Send(c.ctx, *req)\<close> of the run,
  started at clock \<open>t\<close>; it gives the response and error of \<^verbatim>\<open>Send\<close>, the clock at
  which \<^verbatim>\<open>Send\<close> returns, and the updates the network and the server make to the metrics
  registry during the call.
\<close>

record World =
  clientCtx :: Context
  network :: "nat \<Rightarrow> int \<Rightarrow> (Response \<times> error) \<times> int \<times> (Metrics \<Rightarrow> Metrics)"

text \<open>
  The local variables of \<^verbatim>\<open>requestWithHooks\<close> and what it acts on: the script state,
  the metrics registry, the clock, \<^verbatim>\<open>isRetry\<close>, \<^verbatim>\<open>timeout\<close>, the number of calls of
  \<^verbatim>\<open>sendRequest\<close> made so far, the lines written with \<^verbatim>\<open>log.Printf\<close>, and, for
  observation, the timeout argument of each call of \<^verbatim>\<open>sendRequest\<close> in order.
\<close>

record 's ClientRun =
  script :: 's
  metrics :: Metrics
  clock :: int
  isRetry :: bool
  timeout :: int
  sends :: nat
  logged :: "string list"
  sendTimeouts :: "int list"

definition logError :: "error \<Rightarrow> 's ClientRun \<Rightarrow> 's ClientRun" where
  "logError e r =
     (case e of
        None \<Rightarrow> r
      | Some msg \<Rightarrow> r\<lparr>logged := logged r @ [''Error evaluating client behavior: '' @ msg]\<rparr>)"

text \<open>
  \<open>sendRequest ctx now tmo (res, tdone)\<close>: the goroutine running \<^verbatim>\<open>Send\<close> delivers
  \<open>res\<close> at clock \<open>tdone\<close>; the \<^verbatim>\<open>select\<close> takes whichever of the result, the
  cancellation of the context and, when \<open>tmo > 0\<close>, the timer is ready first, and the
  earlier case of the \<^verbatim>\<open>select\<close> when several are ready together.
\<close>

definition sendRequest ::
  "Context \<Rightarrow> int \<Rightarrow> int \<Rightarrow> (Response \<times> error) \<times> int \<Rightarrow> (Response \<times> error) \<times> int" where
  "sendRequest ctx now tmo result =
     (let res = fst result;
          tdone = snd result;
          beforeCancel = (case ctx of None \<Rightarrow> True | Some c \<Rightarrow> tdone \<le> max c now)
      in if tmo > 0
         then
           if tdone \<le> now + tmo \<and> beforeCancel then (res, tdone)
           else (case ctx of
                   None \<Rightarrow> ((zeroResponse, Some ''client request timed''), now + tmo)
                 | Some c \<Rightarrow>
                     if max c now \<le> now + tmo then ((zeroResponse, Some ctxErr), max c now)
                     else ((zeroResponse, Some ''client request timed''), now + tmo))
         else
           if beforeCancel then (res, tdone)
           else (case ctx of
                   None \<Rightarrow> (res, tdone)
                 | Some c \<Rightarrow> ((zeroResponse, Some ctxErr), max c now)))"

datatype evalOutcome = Blocked | Cancelled | Proceed

text \<open>
  The pre-request evaluation loop. The first argument bounds the number of iterations;
  \<open>None\<close> means the bound was reached with the loop still running.
\<close>

fun evaluationLoop ::
  "nat \<Rightarrow> 's ClientBehavior \<Rightarrow> Context \<Rightarrow> 's ClientRun \<Rightarrow> (evalOutcome \<times> 's ClientRun) option" where
  "evaluationLoop 0 b ctx r = None"
| "evaluationLoop (Suc fuel) b ctx r =
     (case OnRequest b (ctxDone ctx (clock r)) (script r) of
        ((allowed, delay, tmo, e), st) \<Rightarrow>
          (let r1 = logError e (r\<lparr>script := st\<rparr>)
           in if \<not> allowed
              then Some (Blocked,
                     r1\<lparr>metrics := (metrics r1)\<lparr>ClientBlockedRequests :=
                                      ClientBlockedRequests (metrics r1) + 1\<rparr>\<rparr>)
              else if delay > 0
                then (case SleepWithContext ctx (clock r1) (delay * Millisecond) of
                        (Some ce, t) \<Rightarrow> Some (Cancelled, r1\<lparr>clock := t\<rparr>)
                      | (None, t) \<Rightarrow> evaluationLoop fuel b ctx (r1\<lparr>clock := t\<rparr>))
              else Some (Proceed,
                     if tmo > 0 then r1\<lparr>timeout := tmo * Millisecond\<rparr> else r1)))"

text \<open>
  \<open>evaluationState k b ctx r\<close> is the state with which the evaluation loop started in
  \<open>r\<close> enters its iteration number \<open>k\<close> (counted from 0): each iteration before it has
  been allowed, has asked for a delay and has slept it out. \<open>None\<close> means that the loop
  has left before.
\<close>

fun evaluationState ::
  "nat \<Rightarrow> 's ClientBehavior \<Rightarrow> Context \<Rightarrow> 's ClientRun \<Rightarrow> 's ClientRun option" where
  "evaluationState 0 b ctx r = Some r"
| "evaluationState (Suc k) b ctx r =
     (case OnRequest b (ctxDone ctx (clock r)) (script r) of
        ((allowed, delay, tmo, e), st) \<Rightarrow>
          (let r1 = logError e (r\<lparr>script := st\<rparr>)
           in if allowed \<and> delay > 0
              then (case SleepWithContext ctx (clock r1) (delay * Millisecond) of
                      (Some ce, t) \<Rightarrow> None
                    | (None, t) \<Rightarrow> evaluationState k b ctx (r1\<lparr>clock := t\<rparr>))
              else None))"

datatype 's attemptResult = Finished "'s ClientRun" | Retry "'s ClientRun"

text \<open>What follows the retry decision of one attempt.\<close>

definition handleRetry ::
  "Context \<Rightarrow> bool \<Rightarrow> int \<Rightarrow> 's ClientRun \<Rightarrow> 's attemptResult" where
  "handleRetry ctx shouldRetry retryDelayMs r =
     (if shouldRetry
      then
        if retryDelayMs > 0
        then (case SleepWithContext ctx (clock r) (retryDelayMs * Millisecond) of
                (Some ce, t) \<Rightarrow> Finished (r\<lparr>clock := t\<rparr>)
              | (None, t) \<Rightarrow> Retry (r\<lparr>clock := t, isRetry := True\<rparr>))
        else Retry (r\<lparr>isRetry := True\<rparr>)
      else Finished r)"

text \<open>The call \<^verbatim>\<open>c.sendRequest(req, timeout)\<close> of an attempt: response, error, clock at return.\<close>

definition sendOutcome :: "World \<Rightarrow> 's ClientRun \<Rightarrow> (Response \<times> error) \<times> int" where
  "sendOutcome w r =
     sendRequest (clientCtx w) (clock r) (timeout r)
       (fst (network w (sends r) (clock r)), fst (snd (network w (sends r) (clock r))))"

text \<open>The registry after \<^verbatim>\<open>ClientSentRequests.Add(1)\<close> and, on a retry,
  \<^verbatim>\<open>ClientRetryRequests.Add(1)\<close>.\<close>

definition countSent :: "'s ClientRun \<Rightarrow> Metrics" where
  "countSent r =
     (let m0 = metrics r;
          m1 = m0\<lparr>ClientSentRequests := ClientSentRequests m0 + 1\<rparr>
      in if isRetry r then m1\<lparr>ClientRetryRequests := ClientRetryRequests m1 + 1\<rparr> else m1)"

text \<open>
  One iteration of the outer loop after its evaluation loop has allowed the request:
  counting, \<^verbatim>\<open>sendRequest\<close>, the hooks for the outcome, and the retry decision.
\<close>

definition attempt :: "'s ClientBehavior \<Rightarrow> World \<Rightarrow> 's ClientRun \<Rightarrow> 's attemptResult" where
  "attempt b w r =
     (let m2 = countSent r;
          start = clock r;
          out = sendOutcome w r;
          resp = fst (fst out);
          rerr = snd (fst out);
          t = snd out;
          m3 = recordResponseTime t (t - start)
                 (snd (snd (network w (sends r) start)) m2);
          r3 = r\<lparr>metrics := m3, clock := t, sends := Suc (sends r),
                 sendTimeouts := sendTimeouts r @ [timeout r]\<rparr>;
          stopped = ctxDone (clientCtx w) t
      in case rerr of
           None \<Rightarrow>
             if Ok resp
             then
               (let r4 = r3\<lparr>metrics := m3\<lparr>ClientSuccessResponses :=
                                          ClientSuccessResponses m3 + 1\<rparr>\<rparr>
                in case OnResponse b stopped resp (script r4) of
                     (berr, st) \<Rightarrow> Finished (logError berr (r4\<lparr>script := st\<rparr>)))
             else
               (let r4 = r3\<lparr>metrics := m3\<lparr>ClientErrorResponses :=
                                          ClientErrorResponses m3 + 1\<rparr>\<rparr>
                in case OnError b stopped resp (script r4) of
                     (berr, st) \<Rightarrow>
                       (let r5 = logError berr (r4\<lparr>script := st\<rparr>)
                        in case OnRetry b stopped (Some resp) None (script r5) of
                             ((shouldRetry, retryDelayMs, berr2), st2) \<Rightarrow>
                               handleRetry (clientCtx w) shouldRetry retryDelayMs
                                 (logError berr2 (r5\<lparr>script := st2\<rparr>))))
         | Some e \<Rightarrow>
             (let r4 = r3\<lparr>metrics := m3\<lparr>NetworkFailedRequests :=
                                        NetworkFailedRequests m3 + 1\<rparr>\<rparr>
              in case OnFail b stopped e (script r4) of
                   (berr, st) \<Rightarrow>
                     (let r5 = logError berr (r4\<lparr>script := st\<rparr>)
                      in case OnRetry b stopped None (Some e) (script r5) of
                           ((shouldRetry, retryDelayMs, berr2), st2) \<Rightarrow>
                             handleRetry (clientCtx w) shouldRetry retryDelayMs
                               (logError berr2 (r5\<lparr>script := st2\<rparr>)))))"

text \<open>
  The call of \<^verbatim>\<open>OnRetry\<close> an attempt makes: its response and error arguments and the
  script state it finds, which is the one \<^verbatim>\<open>OnError\<close> or \<^verbatim>\<open>OnFail\<close> has left. \<open>None\<close>
  when the request succeeded and \<^verbatim>\<open>OnRetry\<close> is not called.
\<close>

definition retryCall ::
  "'s ClientBehavior \<Rightarrow> World \<Rightarrow> 's ClientRun \<Rightarrow> (Response option \<times> error \<times> 's) option" where
  "retryCall b w r =
     (let out = sendOutcome w r;
          resp = fst (fst out);
          rerr = snd (fst out);
          stopped = ctxDone (clientCtx w) (snd out)
      in case rerr of
           None \<Rightarrow>
             if Ok resp then None
             else Some (Some resp, None, snd (OnError b stopped resp (script r)))
         | Some e \<Rightarrow> Some (None, Some e, snd (OnFail b stopped e (script r))))"

fun runOf :: "'s attemptResult \<Rightarrow> 's ClientRun" where
  "runOf (Finished r) = r"
| "runOf (Retry r) = r"

text \<open>
  The outer loop of \<^verbatim>\<open>requestWithHooks\<close>. The first argument bounds the number of
  attempts and of evaluations within each; \<open>None\<close> means the bound was reached.
\<close>

fun requestLoop ::
  "nat \<Rightarrow> 's ClientBehavior \<Rightarrow> World \<Rightarrow> 's ClientRun \<Rightarrow> 's ClientRun option" where
  "requestLoop 0 b w r = None"
| "requestLoop (Suc fuel) b w r =
     (case evaluationLoop (Suc fuel) b (clientCtx w) r of
        None \<Rightarrow> None
      | Some (Blocked, r1) \<Rightarrow> Some r1
      | Some (Cancelled, r1) \<Rightarrow> Some r1
      | Some (Proceed, r1) \<Rightarrow>
          (case attempt b w r1 of
             Finished r2 \<Rightarrow> Some r2
           | Retry r2 \<Rightarrow> requestLoop fuel b w r2))"

definition requestWithHooks ::
  "nat \<Rightarrow> 's ClientBehavior \<Rightarrow> World \<Rightarrow> 's \<Rightarrow> Metrics \<Rightarrow> int \<Rightarrow> 's ClientRun option" where
  "requestWithHooks fuel b w st m now =
     requestLoop fuel b w
       \<lparr>script = st, metrics = m, clock = now, isRetry = False, timeout = 0, sends = 0,
        logged = [], sendTimeouts = []\<rparr>"

text \<open>
  The network of a client's world when every call goes through \<open>Send\<close> with the same
  context, draws, server and network state: result and return clock of \<open>Send\<close> (they do
  not depend on the registry) and its effect on the registry.
\<close>

definition networkSend ::
  "Context \<Rightarrow> Draws \<Rightarrow> (int \<Rightarrow> (Response \<times> error) \<times> int) \<Rightarrow> Network \<Rightarrow> int
     \<Rightarrow> (Response \<times> error) \<times> int \<times> (Metrics \<Rightarrow> Metrics)" where
  "networkSend ctx d handle n t =
     (fst (Send ctx t d handle n NewMetrics),
      fst (snd (Send ctx t d handle n NewMetrics)),
      (\<lambda>m. snd (snd (snd (Send ctx t d handle n m)))))"

text \<open>The call of the server made by \<open>Send\<close> when the server is in managed mode.\<close>

definition managedHandle ::
  "((Response \<times> error) \<times> int) option \<Rightarrow> Server \<Rightarrow> int \<Rightarrow> (Response \<times> error) \<times> int" where
  "managedHandle reply s t =
     (fst (handleRequestWithResources t reply s), fst (snd (handleRequestWithResources t reply s)))"

text \<open>A hook's value from which no retry decision can be read: not a dictionary, or a
  dictionary without the key \<^verbatim>\<open>allow\<close>.\<close>

definition noAllow :: "Value \<Rightarrow> bool" where
  "noAllow v = (case v of DictV d \<Rightarrow> map_of d (StringV ''allow'') = None | _ \<Rightarrow> True)"

section \<open>Example scripts and worlds\<close>

definition noHooks :: "'s StarlarkClientBehavior" where
  "noHooks = \<lparr>onRequest = None, onResponse = None, onError = None, onFail = None,
              onRetry = None\<rparr>"

text \<open>\<^verbatim>\<open>def on_request(req): fail("boom")\<close>\<close>

definition raisingOnRequest :: "unit StarlarkClientBehavior" where
  "raisingOnRequest = noHooks\<lparr>onRequest := Some (\<lambda>st. (Inl ''fail: boom'', st))\<rparr>"

text \<open>
  A script whose \<^verbatim>\<open>on_request\<close> asks for a delay of 10 ms on its first evaluation and
  raises on the later ones; its state counts the evaluations.
\<close>

definition delayThenRaise :: "nat StarlarkClientBehavior" where
  "delayThenRaise = noHooks
     \<lparr>onRequest := Some (\<lambda>k. if k = 0 then (Inr (DictV [(StringV ''delay'', IntV 10)]), Suc k)
                            else (Inl ''fail: boom'', Suc k))\<rparr>"

text \<open>A script whose \<^verbatim>\<open>on_retry\<close> raises when called with a transport error and
  allows the retry of an error response.\<close>

definition raisingOnTransportError :: "unit StarlarkClientBehavior" where
  "raisingOnTransportError = noHooks
     \<lparr>onRetry := Some (\<lambda>resp rerr st.
        case rerr of
          Some e \<Rightarrow> (Inl ''fail: boom'', st)
        | None \<Rightarrow> (Inr (DictV [(StringV ''allow'', BoolV True)]), st))\<rparr>"

text \<open>A script whose \<^verbatim>\<open>on_retry\<close> returns nothing on its first evaluation and
  \<^verbatim>\<open>{"allow": False}\<close> on the later ones; its state counts the evaluations.\<close>

definition silentThenDeny :: "nat StarlarkClientBehavior" where
  "silentThenDeny = noHooks
     \<lparr>onRetry := Some (\<lambda>resp rerr k.
        (Inr (if k = 0 then NoneV else DictV [(StringV ''allow'', BoolV False)]), Suc k))\<rparr>"

text \<open>
  A script whose state counts the evaluations of \<^verbatim>\<open>on_request\<close>: the first returns
  \<^verbatim>\<open>{"timeout": 100}\<close>, the later ones return nothing; \<^verbatim>\<open>on_retry\<close> allows a retry
  after the first evaluation only.
\<close>

definition timeoutOnce :: "nat StarlarkClientBehavior" where
  "timeoutOnce = noHooks
     \<lparr>onRequest := Some (\<lambda>k. (Inr (if k = 0 then DictV [(StringV ''timeout'', IntV 100)]
                                     else NoneV), Suc k)),
      onRetry := Some (\<lambda>resp rerr k. (Inr (DictV [(StringV ''allow'', BoolV (k = 1))]), k))\<rparr>"

text \<open>A world that is never cancelled and loses every packet after 10 ms.\<close>

definition lossyWorld :: World where
  "lossyWorld =
     \<lparr>clientCtx = None,
      network = (\<lambda>k t. ((zeroResponse, Some ''packet lost''), t + 10 * Millisecond, (\<lambda>m. m)))\<rparr>"

text \<open>A world that is never cancelled, answers the first call with a server error
  after 50 ms and every later call with success after 200 ms.\<close>

definition slowSecondWorld :: World where
  "slowSecondWorld =
     \<lparr>clientCtx = None,
      network = (\<lambda>k t.
        if k = 0
        then ((zeroResponse\<lparr>Error := ''Server Error''\<rparr>, None), t + 50 * Millisecond, (\<lambda>m. m))
        else ((zeroResponse\<lparr>Ok := True, Data := ''OK''\<rparr>, None), t + 200 * Millisecond,
              (\<lambda>m. m)))\<rparr>"

text \<open>A managed-mode server whose memory utilization is above 0.99, and a world whose network
  is the default network in front of it, with all draws 0.\<close>

definition fullMemoryServer :: Server where
  "fullMemoryServer =
     NewServer\<lparr>behavior := defaultServerBehavior\<lparr>EnableResourceManagement := True\<rparr>,
               resourceState := zeroResourceState\<lparr>CurrentMemoryMB := 1014,
                                  MemoryUtilization := 1014 / 1024\<rparr>,
               queueCap := 500\<rparr>"

text \<open>A managed-mode server whose queue of 500 holds 500 requests, all workers busy.\<close>

definition fullQueueServer :: Server where
  "fullQueueServer =
     NewServer\<lparr>behavior := defaultServerBehavior\<lparr>EnableResourceManagement := True\<rparr>,
               queued := 500, queueCap := 500\<rparr>"

definition zeroDraws :: Draws where
  "zeroDraws = \<lparr>normFwd = 0, dropFwd = 0, normRet = 0, dropRet = 0\<rparr>"

definition fullMemoryWorld :: World where
  "fullMemoryWorld =
     \<lparr>clientCtx = None,
      network = (\<lambda>k. networkSend None zeroDraws (managedHandle None fullMemoryServer)
                         NewNetwork)\<rparr>"

definition fullQueueWorld :: World where
  "fullQueueWorld =
     \<lparr>clientCtx = None,
      network = (\<lambda>k. networkSend None zeroDraws (managedHandle None fullQueueServer)
                         NewNetwork)\<rparr>"

section \<open>Simulation controller: client configurations (Simulation in package simulation)\<close>

record ClientConfig =
  ConfigId :: string
  Count :: int
  RequestRate :: int
  RampUpTime :: int
  Delay :: int
  Behavior :: string

record Simulation =
  running :: bool
  clientsConfigs :: "ClientConfig list"

definition notFound :: "string \<Rightarrow> string" where
  "notFound ident = ''Client group with id '' @ [CHR 0x27] @ ident @ [CHR 0x27] @ '' not found''"

text \<open>The loop \<^verbatim>\<open>for i, cfg := range s.clientsConfigs { if cfg.Id == id { ... return nil } }\<close>
  of \<^verbatim>\<open>UpdateClientConfig\<close>: the first configuration with the identifier is replaced.\<close>

fun updateFirst :: "string \<Rightarrow> ClientConfig \<Rightarrow> ClientConfig list \<Rightarrow> ClientConfig list option" where
  "updateFirst ident c [] = None"
| "updateFirst ident c (cfg # cfgs) =
     (if ConfigId cfg = ident then Some (c # cfgs)
      else map_option ((#) cfg) (updateFirst ident c cfgs))"

text \<open>The loop of \<^verbatim>\<open>DeleteClientConfigById\<close>: the first configuration with the identifier
  is cut out by \<^verbatim>\<open>append(cfgs[:i], cfgs[i+1:]...)\<close>.\<close>

fun deleteFirst :: "string \<Rightarrow> ClientConfig list \<Rightarrow> ClientConfig list option" where
  "deleteFirst ident [] = None"
| "deleteFirst ident (cfg # cfgs) =
     (if ConfigId cfg = ident then Some cfgs
      else map_option ((#) cfg) (deleteFirst ident cfgs))"

definition UpdateClientConfig ::
  "string \<Rightarrow> int \<Rightarrow> int \<Rightarrow> int \<Rightarrow> int \<Rightarrow> string \<Rightarrow> Simulation \<Rightarrow> error \<times> Simulation" where
  "UpdateClientConfig ident count requestRate rampUpTime delay behaviorScript s =
     (if running s
      then (Some ''Simulation: Error: Cannot update client configs while running'', s)
      else
        case updateFirst ident
               \<lparr>ConfigId = ident, Count = count, RequestRate = requestRate,
                RampUpTime = rampUpTime, Delay = delay, Behavior = behaviorScript\<rparr>
               (clientsConfigs s) of
          Some cfgs \<Rightarrow> (None, s\<lparr>clientsConfigs := cfgs\<rparr>)
        | None \<Rightarrow> (Some (notFound ident), s))"

definition AddClientsConfig ::
  "string \<Rightarrow> int \<Rightarrow> int \<Rightarrow> int \<Rightarrow> int \<Rightarrow> string \<Rightarrow> Simulation \<Rightarrow> error \<times> Simulation" where
  "AddClientsConfig ident count requestRate rampUpTime delay behaviorScript s =
     (if running s
      then (Some ''Simulation: Error: Cannot add clients configs while running'', s)
      else (None, s\<lparr>clientsConfigs := clientsConfigs s @
              [\<lparr>ConfigId = ident, Count = count, RequestRate = requestRate,
                RampUpTime = rampUpTime, Delay = delay, Behavior = behaviorScript\<rparr>]\<rparr>))"

definition DeleteClientConfigById :: "string \<Rightarrow> Simulation \<Rightarrow> error \<times> Simulation" where
  "DeleteClientConfigById ident s =
     (if running s
      then (Some ''Simulation: Error: Cannot delete client configs while running'', s)
      else
        case deleteFirst ident (clientsConfigs s) of
          Some cfgs \<Rightarrow> (None, s\<lparr>clientsConfigs := cfgs\<rparr>)
        | None \<Rightarrow> (Some (notFound ident), s))"

definition ClearClientConfigs :: "Simulation \<Rightarrow> error \<times> Simulation" where
  "ClearClientConfigs s =
     (if running s
      then (Some ''Simulation: Error: Cannot add clients configs while running'', s)
      else (None, s\<lparr>clientsConfigs := []\<rparr>))"

section \<open>Theorems\<close>

lemma findSegment_in_range:
  "i < length points \<Longrightarrow> nx < X (points ! (length points - 1)) \<Longrightarrow>
   i \<le> findSegment nx points i \<and> findSegment nx points i < length points"
proof (induction nx points i rule: findSegment.induct)
  case (1 nx points i)
  show ?case
  proof (cases "nx < X (points ! i)")
    case True
    with "1.prems" show ?thesis by (simp add: findSegment.simps)
  next
    case False
    with "1.prems" have "i \<noteq> length points - 1" by auto
    with "1.prems" have lt: "Suc i < length points" by simp
    from "1.IH" [OF "1.prems"(1) False lt "1.prems"(2)] False "1.prems"(1)
    show ?thesis by (subst (1 2) findSegment.simps) simp
  qed
qed

lemma two_point_break_linear:
  assumes "0 < x" and "x < maxX"
  shows "CurveFunction 0 maxX minY maxY
           [\<lparr>X = 0, Y = y0, Type = Break\<rparr>, \<lparr>X = 1, Y = y1, Type = k\<rparr>] x
         = minY + (y0 + (x / maxX) * (y1 - y0)) * (maxY - minY)"
proof -
  have p: "0 < maxX" using assms by simp
  have "0 < x / maxX" and "x / maxX < 1" using assms p by simp_all
  then show ?thesis
    using p by (simp add: CurveFunction_def normX_def denormY_def findSegment.simps Let_def)
qed

text \<open>
  Claim C6. Over the bounds \<open>(minX, maxX, minY, maxY) = (0, 1000, 0, 1000)\<close>, the curve
  built from exactly the two break points \<open>(0, 0)\<close> and \<open>(1, 1)\<close> gives \<open>f 500 = 500\<close>:
  the segment has a break endpoint, so it is evaluated by linear interpolation on \<open>y\<close>
  (lemma \<open>two_point_break_linear\<close> gives the line for every \<open>x\<close> inside the bounds).
  (The float computation is exact here: \<open>500 / 1000 = 0.5\<close> and \<open>0.5 * 1000 = 500\<close>.)
\<close>

theorem C6_break_curve_midpoint:
  "CurveFunction 0 1000 0 1000
     [\<lparr>X = 0, Y = 0, Type = Break\<rparr>, \<lparr>X = 1, Y = 1, Type = Break\<rparr>] 500 = 500"
  by (simp add: CurveFunction_def normX_def denormY_def findSegment.simps)

text \<open>
  Claim C8. While the simulation is running, each of the four operations that mutate
  the client configurations (\<open>AddClientsConfig\<close>, \<open>UpdateClientConfig\<close>,
  \<open>DeleteClientConfigById\<close>, \<open>ClearClientConfigs\<close>) returns an error and leaves the
  stored list of client configurations as it was.
\<close>

theorem C8_mutation_rejected_while_running:
  assumes "running s"
  shows "fst (AddClientsConfig ident n r u d b s) \<noteq> None
         \<and> clientsConfigs (snd (AddClientsConfig ident n r u d b s)) = clientsConfigs s
       \<and> fst (UpdateClientConfig ident n r u d b s) \<noteq> None
         \<and> clientsConfigs (snd (UpdateClientConfig ident n r u d b s)) = clientsConfigs s
       \<and> fst (DeleteClientConfigById ident s) \<noteq> None
         \<and> clientsConfigs (snd (DeleteClientConfigById ident s)) = clientsConfigs s
       \<and> fst (ClearClientConfigs s) \<noteq> None
         \<and> clientsConfigs (snd (ClearClientConfigs s)) = clientsConfigs s"
  using assms
  by (simp add: AddClientsConfig_def UpdateClientConfig_def DeleteClientConfigById_def
      ClearClientConfigs_def)

theorem C8_mutation_rejected_while_running_witness:
  "running \<lparr>running = True, clientsConfigs =
      [\<lparr>ConfigId = ''g1'', Count = 10, RequestRate = 100, RampUpTime = 0, Delay = 0,
        Behavior = ''''\<rparr>]\<rparr>
   \<and> fst (DeleteClientConfigById ''g1'' \<lparr>running = True, clientsConfigs =
      [\<lparr>ConfigId = ''g1'', Count = 10, RequestRate = 100, RampUpTime = 0, Delay = 0,
        Behavior = ''''\<rparr>]\<rparr>) \<noteq> None
   \<and> clientsConfigs (snd (ClearClientConfigs \<lparr>running = True, clientsConfigs =
      [\<lparr>ConfigId = ''g1'', Count = 10, RequestRate = 100, RampUpTime = 0, Delay = 0,
        Behavior = ''''\<rparr>]\<rparr>))
     = [\<lparr>ConfigId = ''g1'', Count = 10, RequestRate = 100, RampUpTime = 0, Delay = 0,
        Behavior = ''''\<rparr>]"
  using C8_mutation_rejected_while_running
    [of "\<lparr>running = True, clientsConfigs =
      [\<lparr>ConfigId = ''g1'', Count = 10, RequestRate = 100, RampUpTime = 0, Delay = 0,
        Behavior = ''''\<rparr>]\<rparr>" "''g1''"]
  by simp

subsection \<open>Metrics registry\<close>

lemma windowLoop_eq:
  "windowLoop xs (mn, mx, sm) = (Min (insert mn (set xs)), Max (insert mx (set xs)), sm + sum_list xs)"
proof (induction xs arbitrary: mn mx sm)
  case Nil
  show ?case by simp
next
  case (Cons x xs)
  have a: "Min (insert (if x < mn then x else mn) (set xs)) = Min (insert mn (insert x (set xs)))"
    by (cases "set xs = {}") (auto simp: min_def)
  have b: "Max (insert (if x > mx then x else mx) (set xs)) = Max (insert mx (insert x (set xs)))"
    by (cases "set xs = {}") (auto simp: max_def)
  show ?case by (simp add: Cons.IH a b del: Min_insert Max_insert)
qed

lemma percentileIdx_lt: "0 < n \<Longrightarrow> percentileIdx n p < n"
  by (simp add: percentileIdx_def Let_def)

lemma percentileIdx_mono:
  assumes "0 \<le> p" "p \<le> q"
  shows "percentileIdx n p \<le> percentileIdx n q"
proof -
  have "of_nat n * p \<le> of_nat n * q" using assms by (simp add: mult_left_mono)
  moreover have "0 \<le> of_nat n * p" "0 \<le> of_nat n * q" using assms by auto
  ultimately have "trunc (of_nat n * p) \<le> trunc (of_nat n * q)"
    by (simp add: trunc_def floor_mono)
  then show ?thesis by (auto simp: percentileIdx_def Let_def)
qed

lemma percentileIdx_floor:
  "0 \<le> p \<Longrightarrow> percentileIdx n p = min (n - 1) (nat \<lfloor>of_nat n * p\<rfloor>)"
  by (auto simp: percentileIdx_def Let_def trunc_def min_def)


text \<open>
  Claim C7. For every non-empty one-second response-time window the recomputed statistics
  satisfy \<open>min \<le> p50 \<le> p80 \<le> p95 \<le> max\<close>, and each percentile \<open>p\<close> is the entry at
  index \<open>\<lfloor>n * p\<rfloor>\<close>, clamped to \<open>n - 1\<close>, of the ascending-sorted copy of the \<open>n\<close>
  durations in the window.
\<close>

theorem C7_percentiles_ordered:
  assumes "prune now (ResponseTimes m) \<noteq> []"
  shows "let m' = calculateSlidingWindowMetrics now m;
             times = sort (map duration (prune now (ResponseTimes m)));
             n = length times
         in MinResponseTime m' \<le> P50ResponseTime m'
          \<and> P50ResponseTime m' \<le> P80ResponseTime m'
          \<and> P80ResponseTime m' \<le> P95ResponseTime m'
          \<and> P95ResponseTime m' \<le> MaxResponseTime m'
          \<and> P50ResponseTime m' = times ! min (n - 1) (nat \<lfloor>of_nat n * (1 / 2 :: rat)\<rfloor>)
          \<and> P80ResponseTime m' = times ! min (n - 1) (nat \<lfloor>of_nat n * (4 / 5 :: rat)\<rfloor>)
          \<and> P95ResponseTime m' = times ! min (n - 1) (nat \<lfloor>of_nat n * (19 / 20 :: rat)\<rfloor>)"
proof -
  define window where "window = prune now (ResponseTimes m)"
  define ds where "ds = map duration window"
  define times where "times = sort ds"
  define n where "n = length times"
  have ne: "window \<noteq> []" using assms by (simp add: window_def)
  then have n_pos: "0 < n" by (simp add: n_def times_def ds_def)
  have hd_in: "duration (hd window) \<in> set ds" using ne by (simp add: ds_def)
  have set_times: "set times = set ds" by (simp add: times_def)
  have srt: "sorted times" by (simp add: times_def)
  have loop: "windowLoop ds (duration (hd window), duration (hd window), 0)
        = (Min (set ds), Max (set ds), sum_list ds)"
    using hd_in by (simp add: windowLoop_eq insert_absorb)
  define m' where "m' = calculateSlidingWindowMetrics now m"
  have mn: "MinResponseTime m' = Min (set ds)"
    and mx: "MaxResponseTime m' = Max (set ds)"
    and p50: "P50ResponseTime m' = times ! percentileIdx n (1 / 2)"
    and p80: "P80ResponseTime m' = times ! percentileIdx n (4 / 5)"
    and p95: "P95ResponseTime m' = times ! percentileIdx n (19 / 20)"
    using ne loop
    by (simp_all add: m'_def calculateSlidingWindowMetrics_def Let_def window_def [symmetric]
        ds_def [symmetric] times_def [symmetric] n_def [symmetric])
  have i50: "percentileIdx n (1 / 2) < n" and i95: "percentileIdx n (19 / 20) < n"
    using n_pos by (simp_all add: percentileIdx_lt)
  have "times ! percentileIdx n (1 / 2) \<in> set ds"
    using i50 set_times n_def nth_mem by blast
  then have a: "Min (set ds) \<le> times ! percentileIdx n (1 / 2)" by simp
  have "times ! percentileIdx n (19 / 20) \<in> set ds"
    using i95 set_times n_def nth_mem by blast
  then have d: "times ! percentileIdx n (19 / 20) \<le> Max (set ds)" by simp
  have b: "times ! percentileIdx n (1 / 2) \<le> times ! percentileIdx n (4 / 5)"
    using srt i95 percentileIdx_lt [OF n_pos, of "4 / 5"] percentileIdx_mono [of "1 / 2" "4 / 5" n]
    by (simp add: sorted_nth_mono n_def)
  have c: "times ! percentileIdx n (4 / 5) \<le> times ! percentileIdx n (19 / 20)"
    using srt i95 percentileIdx_mono [of "4 / 5" "19 / 20" n]
    by (simp add: sorted_nth_mono n_def)
  show ?thesis
    unfolding Let_def m'_def [symmetric] window_def [symmetric] ds_def [symmetric]
      times_def [symmetric] n_def [symmetric]
    using a b c d by (simp add: mn mx p50 p80 p95 percentileIdx_floor)
qed



theorem C7_percentiles_ordered_witness:
  "prune 100 (ResponseTimes (recordResponseTime 30 7 (recordResponseTime 20 3
      (recordResponseTime 10 5 NewMetrics)))) \<noteq> []
   \<and> (let m' = calculateSlidingWindowMetrics 100 (recordResponseTime 30 7
            (recordResponseTime 20 3 (recordResponseTime 10 5 NewMetrics)))
      in MinResponseTime m' \<le> P50ResponseTime m' \<and> P50ResponseTime m' \<le> P80ResponseTime m'
         \<and> P80ResponseTime m' \<le> P95ResponseTime m' \<and> P95ResponseTime m' \<le> MaxResponseTime m')"
proof -
  have h: "prune 100 (ResponseTimes (recordResponseTime 30 7 (recordResponseTime 20 3
      (recordResponseTime 10 5 NewMetrics)))) \<noteq> []"
    by (simp add: prune_def recordResponseTime_def appendBounded_def NewMetrics_def Second_def)
  from C7_percentiles_ordered [OF h] h show ?thesis
    by (simp add: Let_def)
qed



lemma GetSnapshot_reads:
  "min_response_time (fst (GetSnapshot now m)) = Milliseconds (MinResponseTime m)"
  "max_response_time (fst (GetSnapshot now m)) = Milliseconds (MaxResponseTime m)"
  "avg_response_time (fst (GetSnapshot now m)) = Milliseconds (AvgResponseTime m)"
  "p50_response_time (fst (GetSnapshot now m)) = Milliseconds (P50ResponseTime m)"
  "p80_response_time (fst (GetSnapshot now m)) = Milliseconds (P80ResponseTime m)"
  "p95_response_time (fst (GetSnapshot now m)) = Milliseconds (P95ResponseTime m)"
  "min_request_latency (fst (GetSnapshot now m)) = Milliseconds (MinRequestLatency m)"
  "max_request_latency (fst (GetSnapshot now m)) = Milliseconds (MaxRequestLatency m)"
  "min_response_latency (fst (GetSnapshot now m)) = Milliseconds (MinResponseLatency m)"
  "max_response_latency (fst (GetSnapshot now m)) = Milliseconds (MaxResponseLatency m)"
  by (simp_all add: GetSnapshot_def)

lemma GetSnapshot_state:
  "snd (GetSnapshot now m) = calculateNetworkLatencyMetrics now (calculateSlidingWindowMetrics now m)"
  by (simp add: GetSnapshot_def)

lemma network_keeps_response_times:
  "ResponseTimes (calculateNetworkLatencyMetrics now m) = ResponseTimes m"
  "MinResponseTime (calculateNetworkLatencyMetrics now m) = MinResponseTime m"
  "MaxResponseTime (calculateNetworkLatencyMetrics now m) = MaxResponseTime m"
  "AvgResponseTime (calculateNetworkLatencyMetrics now m) = AvgResponseTime m"
  "P50ResponseTime (calculateNetworkLatencyMetrics now m) = P50ResponseTime m"
  "P80ResponseTime (calculateNetworkLatencyMetrics now m) = P80ResponseTime m"
  "P95ResponseTime (calculateNetworkLatencyMetrics now m) = P95ResponseTime m"
  by (simp_all add: calculateNetworkLatencyMetrics_def Let_def split: prod.split)

lemma window_keeps_latencies:
  "RequestLatencies (calculateSlidingWindowMetrics now m) = RequestLatencies m"
  "ResponseLatencies (calculateSlidingWindowMetrics now m) = ResponseLatencies m"
  by (simp_all add: calculateSlidingWindowMetrics_def Let_def split: prod.split)

lemma window_single:
  assumes "prune now (ResponseTimes m) = [td]"
  shows "ResponseTimes (calculateSlidingWindowMetrics now m) = [td]"
    "MinResponseTime (calculateSlidingWindowMetrics now m) = duration td"
    "MaxResponseTime (calculateSlidingWindowMetrics now m) = duration td"
    "AvgResponseTime (calculateSlidingWindowMetrics now m) = duration td"
    "P50ResponseTime (calculateSlidingWindowMetrics now m) = duration td"
    "P80ResponseTime (calculateSlidingWindowMetrics now m) = duration td"
    "P95ResponseTime (calculateSlidingWindowMetrics now m) = duration td"
  using assms
  by (simp_all add: calculateSlidingWindowMetrics_def Let_def percentileIdx_def quot_def sgn_if)

lemma network_single:
  assumes "prune now (RequestLatencies m) = [td]"
  shows "RequestLatencies (calculateNetworkLatencyMetrics now m) = [td]"
    "MinRequestLatency (calculateNetworkLatencyMetrics now m) = duration td"
    "MaxRequestLatency (calculateNetworkLatencyMetrics now m) = duration td"
  using assms
  by (simp_all add: calculateNetworkLatencyMetrics_def Let_def split: prod.split)


text \<open>
  Claim C4 says that every snapshot returns statistics recomputed over the events newer
  than \<open>now - 1s\<close> at the moment of that call, so that a snapshot taken after 1.1 s of
  idling reports zeros. \<open>GetSnapshot\<close> reads the statistic fields before it recomputes
  them, so each call returns what the previous call computed. The run below records one
  response time of 5 ms and one request latency of 2 ms at time 0 and takes snapshots at
  200 ms and at 1300 ms: the first reports zeros although the window holds the event, the
  second reports 5 ms and 2 ms although both windows are empty by then.
\<close>

theorem C4_snapshot_reports_previous_window:
  "(let m1 = recordRequestLatency 0 (2 * Millisecond)
               (recordResponseTime 0 (5 * Millisecond) NewMetrics);
        s1 = fst (GetSnapshot (200 * Millisecond) m1);
        m2 = snd (GetSnapshot (200 * Millisecond) m1);
        s2 = fst (GetSnapshot (1300 * Millisecond) m2)
    in map duration (prune (200 * Millisecond) (ResponseTimes m1)) = [5 * Millisecond]
     \<and> min_response_time s1 = 0 \<and> max_response_time s1 = 0 \<and> avg_response_time s1 = 0
     \<and> p50_response_time s1 = 0 \<and> p80_response_time s1 = 0 \<and> p95_response_time s1 = 0
     \<and> prune (1300 * Millisecond) (ResponseTimes m2) = []
     \<and> prune (1300 * Millisecond) (RequestLatencies m2) = []
     \<and> min_response_time s2 = 5 \<and> max_response_time s2 = 5 \<and> avg_response_time s2 = 5
     \<and> p50_response_time s2 = 5 \<and> p80_response_time s2 = 5 \<and> p95_response_time s2 = 5
     \<and> min_request_latency s2 = 2 \<and> max_request_latency s2 = 2)"
proof -
  define m1 where "m1 = recordRequestLatency 0 (2 * Millisecond)
               (recordResponseTime 0 (5 * Millisecond) NewMetrics)"
  define m2 where "m2 = snd (GetSnapshot (200 * Millisecond) m1)"
  have r1: "ResponseTimes m1 = [\<lparr>timestamp = 0, duration = 5 * Millisecond\<rparr>]"
    "RequestLatencies m1 = [\<lparr>timestamp = 0, duration = 2 * Millisecond\<rparr>]"
    "MinResponseTime m1 = 0" "MaxResponseTime m1 = 0" "AvgResponseTime m1 = 0"
    "P50ResponseTime m1 = 0" "P80ResponseTime m1 = 0" "P95ResponseTime m1 = 0"
    by (simp_all add: m1_def recordRequestLatency_def recordResponseTime_def appendBounded_def
        NewMetrics_def)
  have p1: "prune (200 * Millisecond) (ResponseTimes m1)
              = [\<lparr>timestamp = 0, duration = 5 * Millisecond\<rparr>]"
    by (simp add: r1 prune_def Millisecond_def Second_def)
  have p1': "prune (200 * Millisecond)
               (RequestLatencies (calculateSlidingWindowMetrics (200 * Millisecond) m1))
              = [\<lparr>timestamp = 0, duration = 2 * Millisecond\<rparr>]"
    by (simp add: window_keeps_latencies r1 prune_def Millisecond_def Second_def)
  have r2: "ResponseTimes m2 = [\<lparr>timestamp = 0, duration = 5 * Millisecond\<rparr>]"
    "MinResponseTime m2 = 5 * Millisecond" "MaxResponseTime m2 = 5 * Millisecond"
    "AvgResponseTime m2 = 5 * Millisecond" "P50ResponseTime m2 = 5 * Millisecond"
    "P80ResponseTime m2 = 5 * Millisecond" "P95ResponseTime m2 = 5 * Millisecond"
    by (simp_all add: m2_def GetSnapshot_state network_keeps_response_times window_single [OF p1])
  have r2': "RequestLatencies m2 = [\<lparr>timestamp = 0, duration = 2 * Millisecond\<rparr>]"
    "MinRequestLatency m2 = 2 * Millisecond" "MaxRequestLatency m2 = 2 * Millisecond"
    by (simp_all add: m2_def GetSnapshot_state network_single [OF p1'])
  have ms: "Milliseconds (5 * Millisecond) = 5" "Milliseconds (2 * Millisecond) = 2"
    "Milliseconds 0 = 0"
    by (simp_all add: Milliseconds_def quot_def Millisecond_def)
  have q: "prune (1300 * Millisecond) (ResponseTimes m2) = []"
    "prune (1300 * Millisecond) (RequestLatencies m2) = []"
    by (simp_all add: r2 r2' prune_def Millisecond_def Second_def)
  show ?thesis
    unfolding Let_def m1_def [symmetric] m2_def [symmetric]
    using p1 q by (simp add: GetSnapshot_reads r1 r2 r2' ms)
qed

subsection \<open>Server and network\<close>

lemma floor_rat_numeral_div:
  "\<lfloor>numeral a / numeral b :: rat\<rfloor> = numeral a div numeral b"
  "\<lfloor>1 / numeral b :: rat\<rfloor> = 1 div numeral b"
  "\<lfloor>- (numeral a / numeral b) :: rat\<rfloor> = - numeral a div numeral b"
  "\<lceil>numeral a / numeral b :: rat\<rceil> = - (- numeral a div numeral b)"
  "\<lceil>- (numeral a / numeral b) :: rat\<rceil> = - (numeral a div numeral b)"
proof -
  show "\<lfloor>numeral a / numeral b :: rat\<rfloor> = numeral a div numeral b"
    by (metis floor_divide_of_int_eq of_int_numeral)
  show "\<lfloor>1 / numeral b :: rat\<rfloor> = 1 div numeral b"
    by (metis floor_divide_of_int_eq of_int_numeral of_int_1)
  show "\<lfloor>- (numeral a / numeral b) :: rat\<rfloor> = - numeral a div numeral b"
    by (metis floor_divide_of_int_eq of_int_numeral of_int_minus minus_divide_left)
  show "\<lceil>numeral a / numeral b :: rat\<rceil> = - (- numeral a div numeral b)"
    unfolding ceiling_def
    by (metis floor_divide_of_int_eq of_int_numeral of_int_minus minus_divide_left)
  show "\<lceil>- (numeral a / numeral b) :: rat\<rceil> = - (numeral a div numeral b)"
    unfolding ceiling_def
    by (metis floor_divide_of_int_eq of_int_numeral minus_minus)
qed

lemma tick_keeps_memory:
  assumes "resourceSettings s = \<lparr>MaxConcurrentRequests = 2, MaxMemoryMB = 1024, MaxQueueSize = 500,
        MemoryLeakRateMBPerSec = 10, MemoryPerRequestMB = 2, GCPauseIntervalSec = 10,
        GCPauseDurationMs = 50\<rparr>"
    and "ActiveRequests (resourceState s) = 1"
    and "CurrentMemoryMB (resourceState s) = 2"
  shows "resourceSettings (updateResources pow15 now s) = resourceSettings s
       \<and> ActiveRequests (resourceState (updateResources pow15 now s)) = 1
       \<and> CurrentMemoryMB (resourceState (updateResources pow15 now s)) = 2"
  using assms by (simp add: updateResources_def Let_def trunc_def quot_def floor_rat_numeral_div)

lemma sampleLatencyMs_ge_1: "1 \<le> sampleLatencyMs a b z"
  by (simp add: sampleLatencyMs_def Let_def)

lemma trunc_ge_1: "1 \<le> x \<Longrightarrow> 1 \<le> trunc x"
  by (simp add: trunc_def le_floor_iff)

lemma sampleWorkMs_nonneg:
  "a \<noteq> b \<or> 0 \<le> a \<Longrightarrow> 0 \<le> sampleWorkMs a b z"
  by (auto simp: sampleWorkMs_def Let_def)

lemma sampleWorkMs_equal: "sampleWorkMs a a z = a"
  by (simp add: sampleWorkMs_def)

lemma flat_curve:
  "CurveFunction 0 0 lo hi [\<lparr>X = 0, Y = y, Type = Curve\<rparr>, \<lparr>X = 1, Y = y, Type = Curve\<rparr>] x
     = lo + y * (hi - lo)"
  by (simp add: CurveFunction_def normX_def denormY_def)


lemma oneWayTrip_latency_ge_1ms:
  "Millisecond \<le> fst (oneWayTrip ctx now elapsedMs normDraw u n)"
proof -
  have "1 \<le> trunc (sampleLatencyMs (getLatencyMin n elapsedMs) (getLatencyMax n elapsedMs) normDraw)"
    by (rule trunc_ge_1) (rule sampleLatencyMs_ge_1)
  then show ?thesis
    by (simp add: oneWayTrip_def Let_def Millisecond_def split: prod.split option.split)
qed


lemma ticks_keep_memory:
  assumes "resourceSettings s = \<lparr>MaxConcurrentRequests = 2, MaxMemoryMB = 1024, MaxQueueSize = 500,
        MemoryLeakRateMBPerSec = 10, MemoryPerRequestMB = 2, GCPauseIntervalSec = 10,
        GCPauseDurationMs = 50\<rparr>"
    and "ActiveRequests (resourceState s) = 1"
    and "CurrentMemoryMB (resourceState s) = 2"
  shows "CurrentMemoryMB (resourceState (resourceManager pow15 n now s)) = 2"
  using assms
proof (induction n arbitrary: now s)
  case 0
  then show ?case by simp
next
  case (Suc n)
  from tick_keeps_memory [OF Suc.prems, of pow15 "now + 100 * Millisecond"]
  show ?case using Suc.prems(1) by (simp add: Suc.IH)
qed

text \<open>
  Claim C5 says that every 100 ms tick with \<open>loadFactor > 0.1\<close> adds
  \<open>memoryLeakRateMBPerSec * 0.1 * loadFactor\<close> MB to \<open>currentMemoryMB\<close>, so that a rate of
  10 under constant load accumulates about \<open>10 * 10 * loadFactor\<close> MB in 10 s. The tick adds
  \<^verbatim>\<open>int64(leakAmount)\<close>: with a rate of 10, two workers and one active request
  (\<open>loadFactor = 1/2\<close>) the per-tick leak \<open>1/2\<close> is truncated to 0, and 100 ticks leave
  the memory where it was, where the claim expects a growth of about 50 MB.
\<close>

theorem C5_leak_truncated_per_tick:
  "(let s0 = NewServer\<lparr>resourceSettings :=
               \<lparr>MaxConcurrentRequests = 2, MaxMemoryMB = 1024, MaxQueueSize = 500,
                MemoryLeakRateMBPerSec = 10, MemoryPerRequestMB = 2, GCPauseIntervalSec = 10,
                GCPauseDurationMs = 50\<rparr>,
             resourceState := zeroResourceState\<lparr>ActiveRequests := 1, CurrentMemoryMB := 2\<rparr>\<rparr>
    in ThreadsUtilization (resourceState (updateResources pow15 (100 * Millisecond) s0)) = 1 / 2
     \<and> MemoryLeakRateMBPerSec (resourceSettings s0) * (1 / 10) * (1 / 2) = 1 / 2
     \<and> CurrentMemoryMB (resourceState (updateResources pow15 (100 * Millisecond) s0))
         = CurrentMemoryMB (resourceState s0)
     \<and> CurrentMemoryMB (resourceState (resourceManager pow15 100 0 s0))
         = CurrentMemoryMB (resourceState s0))"
proof -
  define s0 where "s0 = NewServer\<lparr>resourceSettings :=
               \<lparr>MaxConcurrentRequests = 2, MaxMemoryMB = 1024, MaxQueueSize = 500,
                MemoryLeakRateMBPerSec = 10, MemoryPerRequestMB = 2, GCPauseIntervalSec = 10,
                GCPauseDurationMs = 50\<rparr>,
             resourceState := zeroResourceState\<lparr>ActiveRequests := 1, CurrentMemoryMB := 2\<rparr>\<rparr>"
  have a: "resourceSettings s0 = \<lparr>MaxConcurrentRequests = 2, MaxMemoryMB = 1024, MaxQueueSize = 500,
        MemoryLeakRateMBPerSec = 10, MemoryPerRequestMB = 2, GCPauseIntervalSec = 10,
        GCPauseDurationMs = 50\<rparr>"
    and b: "ActiveRequests (resourceState s0) = 1"
    and c: "CurrentMemoryMB (resourceState s0) = 2"
    by (simp_all add: s0_def zeroResourceState_def)
  have t: "ThreadsUtilization (resourceState (updateResources pow15 (100 * Millisecond) s0)) = 1 / 2"
    by (simp add: updateResources_def Let_def a b)
  show ?thesis
    unfolding Let_def s0_def [symmetric]
    using tick_keeps_memory [OF a b c, of pow15 "100 * Millisecond"]
      ticks_keep_memory [OF a b c, of pow15 100 0]
    by (simp add: t a c)
qed

lemma SetBehavior_fields:
  "behavior (SetBehavior b s) = b"
  "behaviorStartTime (SetBehavior b s) = None"
  "getResponseTimeMin (SetBehavior b s)
     = CurveFunction 0 (of_int (To b) * 1000) (of_int (ResponseTimeFrom b))
         (of_int (ResponseTimeTo b)) (ResponseTimeMin b)"
  "getResponseTimeMax (SetBehavior b s)
     = CurveFunction 0 (of_int (To b) * 1000) (of_int (ResponseTimeFrom b))
         (of_int (ResponseTimeTo b)) (ResponseTimeMax b)"
  by (simp_all add: SetBehavior_def setupCurveFunctions_def Let_def)

text \<open>
  Claim C10 says that for every behavior configuration the sampled server work duration
  is at least 0 and the sampled network latency at least 1 ms. The network sampler
  applies its lower bound after both branches (lemma \<open>oneWayTrip_latency_ge_1ms\<close>); the
  server sampler applies it to the drawn sample only (lemma \<open>sampleWorkMs_nonneg\<close>). With
  a response-time range starting at \<open>-50\<close> ms and both curves at the bottom of the range,
  the two evaluated values are equal, the value \<open>-50\<close> is used as it is, and the work
  duration in direct mode is negative for every clock reading and every draw.
\<close>

theorem C10_equal_negative_curves_negative_work:
  "(let b = defaultServerBehavior\<lparr>ResponseTimeFrom := - 50,
              ResponseTimeMin := [\<lparr>X = 0, Y = 0, Type = Curve\<rparr>, \<lparr>X = 1, Y = 0, Type = Curve\<rparr>],
              ResponseTimeMax := [\<lparr>X = 0, Y = 0, Type = Curve\<rparr>, \<lparr>X = 1, Y = 0, Type = Curve\<rparr>]\<rparr>;
        s = SetBehavior b NewServer
    in getResponseTimeMin s 0 = - 50 \<and> getResponseTimeMax s 0 = - 50
     \<and> sampleWorkMs (getResponseTimeMin s 0) (getResponseTimeMax s 0) normDraw = - 50
     \<and> workDuration False now normDraw s = - 50 * Millisecond
     \<and> workDuration False now normDraw s < 0)"
proof -
  define b where "b = defaultServerBehavior\<lparr>ResponseTimeFrom := - 50,
              ResponseTimeMin := [\<lparr>X = 0, Y = 0, Type = Curve\<rparr>, \<lparr>X = 1, Y = 0, Type = Curve\<rparr>],
              ResponseTimeMax := [\<lparr>X = 0, Y = 0, Type = Curve\<rparr>, \<lparr>X = 1, Y = 0, Type = Curve\<rparr>]\<rparr>"
  define s where "s = SetBehavior b NewServer"
  have f: "To b = 0" "ResponseTimeFrom b = - 50" "ResponseTimeTo b = 100"
    "ResponseTimeMin b = [\<lparr>X = 0, Y = 0, Type = Curve\<rparr>, \<lparr>X = 1, Y = 0, Type = Curve\<rparr>]"
    "ResponseTimeMax b = [\<lparr>X = 0, Y = 0, Type = Curve\<rparr>, \<lparr>X = 1, Y = 0, Type = Curve\<rparr>]"
    by (simp_all add: b_def defaultServerBehavior_def)
  have mn: "getResponseTimeMin s x = - 50" for x
    by (simp add: s_def SetBehavior_fields f flat_curve)
  have mx: "getResponseTimeMax s x = - 50" for x
    by (simp add: s_def SetBehavior_fields f flat_curve)
  have st: "behaviorStartTime s = None"
    by (simp add: s_def SetBehavior_fields)
  have w: "workDuration False now normDraw s = - 50 * Millisecond"
    by (simp add: workDuration_def Let_def st mn mx sampleWorkMs_equal trunc_def Millisecond_def)
  show ?thesis
    unfolding Let_def b_def [symmetric] s_def [symmetric]
    by (simp add: mn mx w sampleWorkMs_equal Millisecond_def)
qed

subsection \<open>Behavior interpreter and client\<close>

lemma Starlark_methods:
  "OnRequest (StarlarkBehavior b) c st =
     (if c then ((False, 0, 0, None), st)
      else case executeFunction b execOnRequest st of
             (r, st') \<Rightarrow> ((allow r, delayMs r, timeoutMs r, err r), st'))"
  "OnRetry (StarlarkBehavior b) c resp rerr st =
     (if c then ((False, 0, None), st)
      else case executeFunction b (execOnRetry resp rerr) st of
             (r, st') \<Rightarrow> ((allow r, delayMs r, err r), st'))"
  by (simp_all add: StarlarkBehavior_def)

lemma parse_noAllow: "noAllow v \<Longrightarrow> fst (parseOnRequestResult v) = True"
  by (cases v) (simp_all add: parseOnRequestResult_def noAllow_def Let_def)

lemma logError_fields:
  "script (logError e r) = script r" "metrics (logError e r) = metrics r"
  "clock (logError e r) = clock r" "isRetry (logError e r) = isRetry r"
  "timeout (logError e r) = timeout r" "sends (logError e r) = sends r"
  "sendTimeouts (logError e r) = sendTimeouts r"
  by (simp_all add: logError_def split: option.split)

lemma handleRetry_False: "handleRetry ctx False d r = Finished r"
  by (simp add: handleRetry_def)

lemma handleRetry_fields:
  "timeout (runOf (handleRetry ctx sr d r)) = timeout r"
  "sendTimeouts (runOf (handleRetry ctx sr d r)) = sendTimeouts r"
  "metrics (runOf (handleRetry ctx sr d r)) = metrics r"
  "script (runOf (handleRetry ctx sr d r)) = script r"
  "logged (runOf (handleRetry ctx sr d r)) = logged r"
  by (simp_all add: handleRetry_def split: prod.split option.split)

lemma attempt_no_retry:
  assumes "\<And>c x y s. fst (fst (OnRetry b c x y s)) = False"
  shows "\<exists>r'. attempt b w r = Finished r'"
proof -
  have h: "OnRetry b c x y s = ((sr, d, e), s') \<Longrightarrow> sr = False" for c x y s sr d e s'
    using assms [of c x y s] by simp
  show ?thesis
    by (auto simp: attempt_def Let_def handleRetry_False split: option.split prod.split dest: h)
qed

lemma Starlark_retry_raises:
  assumes "onRetry b = Some g" and "g resp rerr st = (Inl e, st')"
  shows "OnRetry (StarlarkBehavior b) False resp rerr st
           = ((False, 0, Some (''on_retry error: '' @ e)), st')"
  using assms by (simp add: Starlark_methods zeroResult_def)

lemma Starlark_retry_undefined:
  assumes "onRetry b = None"
  shows "OnRetry (StarlarkBehavior b) c resp rerr st = ((False, 0, None), st)"
  using assms by (simp add: Starlark_methods zeroResult_def)

lemma Starlark_request_raises:
  assumes "onRequest b = Some f" and "f st = (Inl e, st')"
  shows "OnRequest (StarlarkBehavior b) False st
           = ((False, 0, 0, Some (''on_request error: '' @ e)), st')"
  using assms by (simp add: Starlark_methods zeroResult_def)

lemma evaluationLoop_blocked:
  assumes "OnRequest b (ctxDone ctx (clock r)) (script r) = ((False, d, t, e), st)"
  shows "evaluationLoop (Suc fuel) b ctx r
           = Some (Blocked, (logError e (r\<lparr>script := st\<rparr>))
               \<lparr>metrics := (metrics r)\<lparr>ClientBlockedRequests :=
                                ClientBlockedRequests (metrics r) + 1\<rparr>\<rparr>)"
  using assms by (simp add: Let_def logError_fields)

lemma requestLoop_blocked:
  assumes "OnRequest b (ctxDone (clientCtx w) (clock r)) (script r) = ((False, d, t, e), st)"
  shows "requestLoop (Suc fuel) b w r
           = Some ((logError e (r\<lparr>script := st\<rparr>))
               \<lparr>metrics := (metrics r)\<lparr>ClientBlockedRequests :=
                                ClientBlockedRequests (metrics r) + 1\<rparr>\<rparr>)"
  using evaluationLoop_blocked [OF assms, of fuel] by simp

lemma evaluationLoop_timeout:
  "evaluationLoop fuel b ctx r = Some (Proceed, r') \<Longrightarrow>
     sendTimeouts r' = sendTimeouts r \<and> sends r' = sends r \<and> isRetry r' = isRetry r
     \<and> (\<exists>st d tmo e. OnRequest b (ctxDone ctx (clock r')) st = ((True, d, tmo, e), script r')
            \<and> d \<le> 0
            \<and> timeout r' = (if tmo > 0 then tmo * Millisecond else timeout r))"
proof (induction fuel arbitrary: r)
  case 0
  then show ?case by simp
next
  case (Suc fuel)
  obtain allowed delay tmo e st
    where hook: "OnRequest b (ctxDone ctx (clock r)) (script r) = ((allowed, delay, tmo, e), st)"
    by (metis prod_cases4 surj_pair)
  define r1 where "r1 = logError e (r\<lparr>script := st\<rparr>)"
  have r1: "sendTimeouts r1 = sendTimeouts r" "sends r1 = sends r" "isRetry r1 = isRetry r"
    "timeout r1 = timeout r" "clock r1 = clock r" "script r1 = st"
    by (simp_all add: r1_def logError_fields)
  show ?case
  proof (cases "\<not> allowed")
    case True
    with Suc.prems hook show ?thesis by (simp add: Let_def)
  next
    case allowed: False
    show ?thesis
    proof (cases "delay > 0")
      case True
      obtain ce t where sl: "SleepWithContext ctx (clock r1) (delay * Millisecond) = (ce, t)"
        by (cases "SleepWithContext ctx (clock r1) (delay * Millisecond)")
      show ?thesis
      proof (cases ce)
        case None
        with Suc.prems hook allowed True sl
        have "evaluationLoop fuel b ctx (r1\<lparr>clock := t\<rparr>) = Some (Proceed, r')"
          by (simp add: Let_def r1_def)
        from Suc.IH [OF this] obtain st2 d2 tmo2 e2
          where a: "sendTimeouts r' = sendTimeouts r" "sends r' = sends r" "isRetry r' = isRetry r"
            and h2: "OnRequest b (ctxDone ctx (clock r')) st2 = ((True, d2, tmo2, e2), script r')"
            and d2: "d2 \<le> 0"
            and t2: "timeout r' = (if tmo2 > 0 then tmo2 * Millisecond else timeout r)"
          by (auto simp: r1)
        show ?thesis using a h2 d2 t2 by blast
      next
        case (Some a)
        with Suc.prems hook allowed True sl show ?thesis by (simp add: Let_def r1_def)
      qed
    next
      case False
      with Suc.prems hook allowed
      have r': "r' = (if tmo > 0 then r1\<lparr>timeout := tmo * Millisecond\<rparr> else r1)"
        by (auto simp: Let_def r1_def)
      have h: "OnRequest b (ctxDone ctx (clock r')) (script r) = ((True, delay, tmo, e), script r')"
        using hook allowed by (simp add: r' r1)
      have t: "timeout r' = (if tmo > 0 then tmo * Millisecond else timeout r)"
        by (simp add: r' r1)
      have k: "sendTimeouts r' = sendTimeouts r" "sends r' = sends r" "isRetry r' = isRetry r"
        by (simp_all add: r' r1)
      have d: "delay \<le> 0" using False by simp
      show ?thesis using h t k d by blast
    qed
  qed
qed

lemma attempt_fields:
  "sendTimeouts (runOf (attempt b w r)) = sendTimeouts r @ [timeout r]"
  "timeout (runOf (attempt b w r)) = timeout r"
  by (simp_all add: attempt_def Let_def handleRetry_fields logError_fields
      split: option.split prod.split)


lemma evaluationState_loop:
  "evaluationState k b ctx r = Some rk \<Longrightarrow>
     evaluationLoop (k + n) b ctx r = evaluationLoop n b ctx rk"
proof (induction k arbitrary: r)
  case 0
  then show ?case by simp
next
  case (Suc k)
  obtain allowed delay tmo e st
    where hook: "OnRequest b (ctxDone ctx (clock r)) (script r) = ((allowed, delay, tmo, e), st)"
    by (metis prod_cases4 surj_pair)
  define r1 where "r1 = logError e (r\<lparr>script := st\<rparr>)"
  from Suc.prems hook have go: "allowed" "delay > 0"
    by (auto simp: Let_def split: if_splits)
  obtain ce t where sl: "SleepWithContext ctx (clock r1) (delay * Millisecond) = (ce, t)"
    by (cases "SleepWithContext ctx (clock r1) (delay * Millisecond)")
  from Suc.prems hook go sl have ce: "ce = None"
    by (cases ce) (simp_all add: Let_def r1_def)
  from Suc.prems hook go sl ce
  have next_state: "evaluationState k b ctx (r1\<lparr>clock := t\<rparr>) = Some rk"
    by (simp add: Let_def r1_def)
  have "evaluationLoop (Suc k + n) b ctx r = evaluationLoop (k + n) b ctx (r1\<lparr>clock := t\<rparr>)"
    using hook go sl ce by (simp add: Let_def r1_def)
  with Suc.IH [OF next_state] show ?case by simp
qed

lemma evaluationState_metrics:
  "evaluationState k b ctx r = Some rk \<Longrightarrow> metrics rk = metrics r"
proof (induction k arbitrary: r)
  case 0
  then show ?case by simp
next
  case (Suc k)
  obtain allowed delay tmo e st
    where hook: "OnRequest b (ctxDone ctx (clock r)) (script r) = ((allowed, delay, tmo, e), st)"
    by (metis prod_cases4 surj_pair)
  define r1 where "r1 = logError e (r\<lparr>script := st\<rparr>)"
  obtain ce t where sl: "SleepWithContext ctx (clock r1) (delay * Millisecond) = (ce, t)"
    by (cases "SleepWithContext ctx (clock r1) (delay * Millisecond)")
  from Suc.prems hook sl
  have "evaluationState k b ctx (r1\<lparr>clock := t\<rparr>) = Some rk"
    by (cases ce) (auto simp: Let_def r1_def split: if_splits)
  from Suc.IH [OF this] show ?case by (simp add: r1_def logError_fields)
qed

lemma attempt_retryCall:
  assumes "retryCall b w r = Some (x, y, st)"
  shows "\<exists>R. clock R = snd (sendOutcome w r)
            \<and> attempt b w r
                = (case OnRetry b (ctxDone (clientCtx w) (snd (sendOutcome w r))) x y st of
                     ((shouldRetry, retryDelayMs, berr2), st2) \<Rightarrow>
                       handleRetry (clientCtx w) shouldRetry retryDelayMs
                         (logError berr2 (R\<lparr>script := st2\<rparr>)))"
proof (cases "snd (fst (sendOutcome w r))")
  case None
  with assms have nok: "\<not> Ok (fst (fst (sendOutcome w r)))"
    and x: "x = Some (fst (fst (sendOutcome w r)))" and y: "y = None"
    and st: "st = snd (OnError b (ctxDone (clientCtx w) (snd (sendOutcome w r)))
                    (fst (fst (sendOutcome w r))) (script r))"
    by (auto simp: retryCall_def Let_def split: if_splits)
  show ?thesis
    using None nok
    by (auto simp: attempt_def Let_def x y st logError_fields split: prod.split
        intro!: exI [where x = "logError berr R'" for berr R'])
next
  case (Some e)
  with assms have x: "x = None" and y: "y = Some e"
    and st: "st = snd (OnFail b (ctxDone (clientCtx w) (snd (sendOutcome w r))) e (script r))"
    by (auto simp: retryCall_def Let_def)
  show ?thesis
    using Some
    by (auto simp: attempt_def Let_def x y st logError_fields split: prod.split
        intro!: exI [where x = "logError berr R'" for berr R'])
qed


lemma handleRetry_True:
  assumes "d \<le> 0 \<or> fst (SleepWithContext ctx (clock R) (d * Millisecond)) = None"
  shows "\<exists>r'. handleRetry ctx True d R = Retry r' \<and> isRetry r' \<and> script r' = script R"
  using assms by (auto simp: handleRetry_def split: prod.split option.split)

lemma Starlark_retry_value:
  assumes "onRetry b = Some g" and "g x y st = (Inr v, st')"
  shows "OnRetry (StarlarkBehavior b) False x y st
           = ((fst (parseOnRequestResult v), fst (snd (parseOnRequestResult v)), None), st')"
  using assms by (simp add: Starlark_methods zeroResult_def split: prod.split)

lemma lossy_outcome:
  "sendOutcome lossyWorld \<lparr>script = st, metrics = m, clock = 0, isRetry = False, timeout = 0,
      sends = 0, logged = [], sendTimeouts = []\<rparr>
     = ((zeroResponse, Some ''packet lost''), 10 * Millisecond)"
  by (simp add: sendOutcome_def sendRequest_def lossyWorld_def Let_def)

lemma lossy_retryCall:
  assumes "onFail b = None"
  shows "retryCall (StarlarkBehavior b) lossyWorld
           \<lparr>script = st, metrics = m, clock = 0, isRetry = False, timeout = 0, sends = 0,
            logged = [], sendTimeouts = []\<rparr>
         = Some (None, Some ''packet lost'', st)"
proof -
  have ctx: "clientCtx lossyWorld = None" by (simp add: lossyWorld_def)
  show ?thesis
    using assms
    by (simp add: retryCall_def lossy_outcome ctx Let_def StarlarkBehavior_def zeroResult_def
        ctxDone_def)
qed

text \<open>
  Claim C9. When a script defines \<^verbatim>\<open>on_retry\<close> (behavior \<open>b1\<close>) and the hook, called by
  an attempt whose request did not succeed, returns a value \<open>v\<close> that is not a dictionary,
  or a dictionary without the key \<^verbatim>\<open>allow\<close>, the parsed retry decision is \<open>allow = True\<close>
  and the client goes on to another attempt (its retry delay, if \<open>v\<close> asks for one, not
  being cut by cancellation); when \<^verbatim>\<open>on_retry\<close> is not defined (behavior \<open>b2\<close>) the
  decision is \<open>allow = False\<close> and the attempt is the last.
\<close>

theorem C9_retry_decision_defaults:
  fixes b1 :: "'s StarlarkClientBehavior" and b2 :: "'t StarlarkClientBehavior"
  assumes "onRetry b1 = Some g"
    and "retryCall (StarlarkBehavior b1) w r = Some (x, y, st)"
    and "\<not> ctxDone (clientCtx w) (snd (sendOutcome w r))"
    and "g x y st = (Inr v, st')"
    and "noAllow v"
    and "fst (snd (parseOnRequestResult v)) \<le> 0
         \<or> fst (SleepWithContext (clientCtx w) (snd (sendOutcome w r))
                 (fst (snd (parseOnRequestResult v)) * Millisecond)) = None"
    and "onRetry b2 = None"
  shows "fst (fst (OnRetry (StarlarkBehavior b1) False x y st)) = True
       \<and> (\<exists>r'. attempt (StarlarkBehavior b1) w r = Retry r' \<and> isRetry r' \<and> script r' = st')
       \<and> OnRetry (StarlarkBehavior b2) False resp rerr s2 = ((False, 0, None), s2)
       \<and> (\<exists>r'. attempt (StarlarkBehavior b2) w2 r2 = Finished r')"
proof -
  let ?d = "fst (snd (parseOnRequestResult v))"
  have call: "OnRetry (StarlarkBehavior b1) False x y st = ((True, ?d, None), st')"
    using Starlark_retry_value [OF assms(1,4)] parse_noAllow [OF assms(5)] by simp
  from attempt_retryCall [OF assms(2)] obtain R
    where clk: "clock R = snd (sendOutcome w r)"
      and att: "attempt (StarlarkBehavior b1) w r
             = (case OnRetry (StarlarkBehavior b1)
                       (ctxDone (clientCtx w) (snd (sendOutcome w r))) x y st of
                  ((shouldRetry, retryDelayMs, berr2), s) \<Rightarrow>
                    handleRetry (clientCtx w) shouldRetry retryDelayMs
                      (logError berr2 (R\<lparr>script := s\<rparr>)))"
    by blast
  have att': "attempt (StarlarkBehavior b1) w r
                = handleRetry (clientCtx w) True ?d (R\<lparr>script := st'\<rparr>)"
    using att assms(3) call by (simp add: logError_def)
  have "?d \<le> 0 \<or> fst (SleepWithContext (clientCtx w) (clock (R\<lparr>script := st'\<rparr>))
                       (?d * Millisecond)) = None"
    using assms(6) by (simp add: clk)
  from handleRetry_True [OF this]
  have retry: "\<exists>r'. attempt (StarlarkBehavior b1) w r = Retry r' \<and> isRetry r' \<and> script r' = st'"
    by (simp add: att')
  have deny2: "fst (fst (OnRetry (StarlarkBehavior b2) c a b s)) = False" for c a b s
    by (simp add: Starlark_retry_undefined [OF assms(7)])
  from call retry Starlark_retry_undefined [OF assms(7), of False resp rerr s2]
    attempt_no_retry [of "StarlarkBehavior b2" w2 r2, OF deny2]
  show ?thesis by simp
qed


theorem C9_retry_decision_defaults_witness:
  "onRetry silentThenDeny
     = Some (\<lambda>resp rerr k.
         (Inr (if k = 0 then NoneV else DictV [(StringV ''allow'', BoolV False)]), Suc k))
   \<and> retryCall (StarlarkBehavior silentThenDeny) lossyWorld
        \<lparr>script = 0, metrics = NewMetrics, clock = 0, isRetry = False, timeout = 0, sends = 0,
         logged = [], sendTimeouts = []\<rparr>
       = Some (None, Some ''packet lost'', 0)
   \<and> \<not> ctxDone (clientCtx lossyWorld) (10 * Millisecond)
   \<and> noAllow NoneV
   \<and> fst (snd (parseOnRequestResult NoneV)) \<le> 0
   \<and> onRetry (noHooks :: unit StarlarkClientBehavior) = None
   \<and> fst (fst (OnRetry (StarlarkBehavior silentThenDeny) False None (Some ''packet lost'') 0))
       = True
   \<and> (\<exists>r'. attempt (StarlarkBehavior silentThenDeny) lossyWorld
              \<lparr>script = 0, metrics = NewMetrics, clock = 0, isRetry = False, timeout = 0,
               sends = 0, logged = [], sendTimeouts = []\<rparr> = Retry r'
            \<and> isRetry r' \<and> script r' = 1)
   \<and> OnRetry (StarlarkBehavior (noHooks :: unit StarlarkClientBehavior)) False None
        (Some ''packet lost'') () = ((False, 0, None), ())
   \<and> (\<exists>r'. attempt (StarlarkBehavior (noHooks :: unit StarlarkClientBehavior)) lossyWorld
              \<lparr>script = (), metrics = NewMetrics, clock = 0, isRetry = False, timeout = 0,
               sends = 0, logged = [], sendTimeouts = []\<rparr> = Finished r')"
proof -
  let ?g = "\<lambda>(resp :: Response option) (rerr :: error) (k :: nat).
         (Inr (if k = 0 then NoneV else DictV [(StringV ''allow'', BoolV False)]), Suc k)"
  let ?r = "\<lparr>script = 0 :: nat, metrics = NewMetrics, clock = 0, isRetry = False, timeout = 0,
         sends = 0, logged = [], sendTimeouts = []\<rparr>"
  let ?r2 = "\<lparr>script = (), metrics = NewMetrics, clock = 0, isRetry = False, timeout = 0,
         sends = 0, logged = [], sendTimeouts = []\<rparr>"
  have a: "onRetry silentThenDeny = Some ?g"
    by (simp add: silentThenDeny_def noHooks_def)
  have b: "retryCall (StarlarkBehavior silentThenDeny) lossyWorld ?r
             = Some (None, Some ''packet lost'', 0)"
    by (rule lossy_retryCall) (simp add: silentThenDeny_def noHooks_def)
  have c: "\<not> ctxDone (clientCtx lossyWorld) (snd (sendOutcome lossyWorld ?r))"
    by (simp add: ctxDone_def lossyWorld_def)
  have d: "?g None (Some ''packet lost'') 0 = (Inr NoneV, 1)" by simp
  have e: "noAllow NoneV" by (simp add: noAllow_def)
  have f: "fst (snd (parseOnRequestResult NoneV)) \<le> 0
         \<or> fst (SleepWithContext (clientCtx lossyWorld) (snd (sendOutcome lossyWorld ?r))
                 (fst (snd (parseOnRequestResult NoneV)) * Millisecond)) = None"
    by (simp add: parseOnRequestResult_def)
  have g: "onRetry (noHooks :: unit StarlarkClientBehavior) = None"
    by (simp add: noHooks_def)
  have p: "fst (snd (parseOnRequestResult NoneV)) \<le> 0"
    by (simp add: parseOnRequestResult_def)
  have k: "\<not> ctxDone (clientCtx lossyWorld) (10 * Millisecond)"
    by (simp add: ctxDone_def lossyWorld_def)
  from C9_retry_decision_defaults [OF a b c d e f g, of None "Some ''packet lost''" "()" lossyWorld ?r2] a b e g p k
  show ?thesis by simp
qed

text \<open>
  Claim C2, amended. When an evaluation of \<^verbatim>\<open>on_request\<close> raises a script error
  (behavior \<open>b1\<close>; the evaluation is iteration \<open>k\<close> of the evaluation loop, entered in
  state \<open>rk\<close> after \<open>k\<close> delays), the error is logged and the decision is
  \<open>allow = False\<close>: the request loop returns with the request counted as blocked and
  nothing sent. When the evaluation of \<^verbatim>\<open>on_retry\<close> made by an attempt raises (behavior
  \<open>b2\<close>), the error is logged, the decision is no retry and the attempt is the last.
\<close>

theorem C2_script_error_decisions:
  fixes b1 :: "'s StarlarkClientBehavior" and b2 :: "'t StarlarkClientBehavior"
  assumes "onRequest b1 = Some f"
    and "evaluationState k (StarlarkBehavior b1) (clientCtx w) r = Some rk"
    and "\<not> ctxDone (clientCtx w) (clock rk)"
    and "f (script rk) = (Inl e, st')"
    and "onRetry b2 = Some g"
    and "retryCall (StarlarkBehavior b2) w2 r2 = Some (x, y, st2)"
    and "\<not> ctxDone (clientCtx w2) (snd (sendOutcome w2 r2))"
    and "g x y st2 = (Inl e2, st2')"
  shows "requestLoop (Suc (k + fuel)) (StarlarkBehavior b1) w r
           = Some (rk\<lparr>script := st',
                      logged := logged rk
                        @ [''Error evaluating client behavior: on_request error: '' @ e],
                      metrics := (metrics r)\<lparr>ClientBlockedRequests :=
                                    ClientBlockedRequests (metrics r) + 1\<rparr>\<rparr>)
       \<and> OnRetry (StarlarkBehavior b2) False x y st2
           = ((False, 0, Some (''on_retry error: '' @ e2)), st2')
       \<and> (\<exists>r'. attempt (StarlarkBehavior b2) w2 r2 = Finished r' \<and> script r' = st2'
              \<and> logged r' \<noteq> []
              \<and> last (logged r') = ''Error evaluating client behavior: on_retry error: '' @ e2)"
proof -
  have hook: "OnRequest (StarlarkBehavior b1) (ctxDone (clientCtx w) (clock rk)) (script rk)
                = ((False, 0, 0, Some (''on_request error: '' @ e)), st')"
    using Starlark_request_raises [OF assms(1,4)] assms(3) by simp
  have "evaluationLoop (k + Suc fuel) (StarlarkBehavior b1) (clientCtx w) r
          = evaluationLoop (Suc fuel) (StarlarkBehavior b1) (clientCtx w) rk"
    by (rule evaluationState_loop [OF assms(2)])
  then have ev: "evaluationLoop (Suc (k + fuel)) (StarlarkBehavior b1) (clientCtx w) r
          = Some (Blocked, (logError (Some (''on_request error: '' @ e)) (rk\<lparr>script := st'\<rparr>))
               \<lparr>metrics := (metrics rk)\<lparr>ClientBlockedRequests :=
                                ClientBlockedRequests (metrics rk) + 1\<rparr>\<rparr>)"
    using evaluationLoop_blocked [OF hook, of fuel] by simp
  have first: "requestLoop (Suc (k + fuel)) (StarlarkBehavior b1) w r
           = Some (rk\<lparr>script := st',
                      logged := logged rk
                        @ [''Error evaluating client behavior: on_request error: '' @ e],
                      metrics := (metrics r)\<lparr>ClientBlockedRequests :=
                                    ClientBlockedRequests (metrics r) + 1\<rparr>\<rparr>)"
    using ev evaluationState_metrics [OF assms(2)] by (simp add: logError_def)
  have call: "OnRetry (StarlarkBehavior b2) False x y st2
                = ((False, 0, Some (''on_retry error: '' @ e2)), st2')"
    by (rule Starlark_retry_raises [OF assms(5,8)])
  from attempt_retryCall [OF assms(6)] obtain R
    where "attempt (StarlarkBehavior b2) w2 r2
             = (case OnRetry (StarlarkBehavior b2)
                       (ctxDone (clientCtx w2) (snd (sendOutcome w2 r2))) x y st2 of
                  ((shouldRetry, retryDelayMs, berr2), s) \<Rightarrow>
                    handleRetry (clientCtx w2) shouldRetry retryDelayMs
                      (logError berr2 (R\<lparr>script := s\<rparr>)))"
    by blast
  with assms(7) call
  have "attempt (StarlarkBehavior b2) w2 r2
          = Finished (logError (Some (''on_retry error: '' @ e2)) (R\<lparr>script := st2'\<rparr>))"
    by (simp add: handleRetry_False)
  then have last: "\<exists>r'. attempt (StarlarkBehavior b2) w2 r2 = Finished r' \<and> script r' = st2'
              \<and> logged r' \<noteq> []
              \<and> last (logged r') = ''Error evaluating client behavior: on_retry error: '' @ e2"
    by (simp add: logError_def)
  from first call last show ?thesis by blast
qed

theorem C2_script_error_decisions_witness:
  "onRequest delayThenRaise
     = Some (\<lambda>k. if k = 0 then (Inr (DictV [(StringV ''delay'', IntV 10)]), Suc k)
                  else (Inl ''fail: boom'', Suc k))
   \<and> evaluationState 1 (StarlarkBehavior delayThenRaise) (clientCtx lossyWorld)
        \<lparr>script = 0, metrics = NewMetrics, clock = 0, isRetry = False, timeout = 0, sends = 0,
         logged = [], sendTimeouts = []\<rparr>
       = Some \<lparr>script = 1, metrics = NewMetrics, clock = 10 * Millisecond, isRetry = False,
               timeout = 0, sends = 0, logged = [], sendTimeouts = []\<rparr>
   \<and> \<not> ctxDone (clientCtx lossyWorld) (10 * Millisecond)
   \<and> retryCall (StarlarkBehavior raisingOnTransportError) lossyWorld
        \<lparr>script = (), metrics = NewMetrics, clock = 0, isRetry = False, timeout = 0, sends = 0,
         logged = [], sendTimeouts = []\<rparr>
       = Some (None, Some ''packet lost'', ())
   \<and> requestWithHooks 2 (StarlarkBehavior delayThenRaise) lossyWorld 0 NewMetrics 0
       = Some \<lparr>script = 2, metrics = NewMetrics\<lparr>ClientBlockedRequests := 1\<rparr>,
               clock = 10 * Millisecond, isRetry = False, timeout = 0, sends = 0,
               logged = [''Error evaluating client behavior: on_request error: fail: boom''],
               sendTimeouts = []\<rparr>
   \<and> OnRetry (StarlarkBehavior raisingOnTransportError) False None (Some ''packet lost'') ()
       = ((False, 0, Some ''on_retry error: fail: boom''), ())
   \<and> (\<exists>r'. attempt (StarlarkBehavior raisingOnTransportError) lossyWorld
              \<lparr>script = (), metrics = NewMetrics, clock = 0, isRetry = False, timeout = 0,
               sends = 0, logged = [], sendTimeouts = []\<rparr> = Finished r'
            \<and> last (logged r') = ''Error evaluating client behavior: on_retry error: fail: boom'')"
proof -
  let ?f = "\<lambda>k :: nat. if k = 0 then (Inr (DictV [(StringV ''delay'', IntV 10)]), Suc k)
                  else (Inl ''fail: boom'', Suc k)"
  let ?g = "\<lambda>(resp :: Response option) (rerr :: error) (st :: unit).
        case rerr of
          Some e \<Rightarrow> (Inl ''fail: boom'', st)
        | None \<Rightarrow> (Inr (DictV [(StringV ''allow'', BoolV True)]), st)"
  let ?r = "\<lparr>script = 0 :: nat, metrics = NewMetrics, clock = 0, isRetry = False, timeout = 0,
         sends = 0, logged = [], sendTimeouts = []\<rparr>"
  let ?rk = "\<lparr>script = 1 :: nat, metrics = NewMetrics, clock = 10 * Millisecond, isRetry = False,
               timeout = 0, sends = 0, logged = [], sendTimeouts = []\<rparr>"
  let ?r2 = "\<lparr>script = (), metrics = NewMetrics, clock = 0, isRetry = False, timeout = 0,
         sends = 0, logged = [], sendTimeouts = []\<rparr>"
  have a: "onRequest delayThenRaise = Some ?f"
    by (simp add: delayThenRaise_def noHooks_def)
  have b: "evaluationState 1 (StarlarkBehavior delayThenRaise) (clientCtx lossyWorld) ?r = Some ?rk"
    by (simp add: StarlarkBehavior_def delayThenRaise_def noHooks_def zeroResult_def
        parseOnRequestResult_def lossyWorld_def ctxDone_def logError_def SleepWithContext_def
        Let_def Millisecond_def)
  have c: "\<not> ctxDone (clientCtx lossyWorld) (clock ?rk)"
    by (simp add: ctxDone_def lossyWorld_def)
  have d: "?f (script ?rk) = (Inl ''fail: boom'', 2)" by simp
  have e: "onRetry raisingOnTransportError = Some ?g"
    by (simp add: raisingOnTransportError_def noHooks_def)
  have f: "retryCall (StarlarkBehavior raisingOnTransportError) lossyWorld ?r2
             = Some (None, Some ''packet lost'', ())"
    by (rule lossy_retryCall) (simp add: raisingOnTransportError_def noHooks_def)
  have g: "\<not> ctxDone (clientCtx lossyWorld) (snd (sendOutcome lossyWorld ?r2))"
    by (simp add: ctxDone_def lossyWorld_def)
  have h: "?g None (Some ''packet lost'') () = (Inl ''fail: boom'', ())" by simp
  have m: "ClientBlockedRequests NewMetrics = 0" by (simp add: NewMetrics_def)
  from C2_script_error_decisions [OF a b c d e f g h, of 0] a b c f
  show ?thesis
    by (simp add: requestWithHooks_def numeral_2_eq_2 m) blast
qed


text \<open>
  Claim C2 as stated says that a request whose \<^verbatim>\<open>on_request\<close> evaluation raises
  proceeds and is not counted as blocked. With a script whose \<^verbatim>\<open>on_request\<close> raises, the
  run ends with one blocked request, none sent and no call of \<^verbatim>\<open>sendRequest\<close>.
\<close>

theorem C2_on_request_error_blocks_counterexample:
  "requestWithHooks 1 (StarlarkBehavior raisingOnRequest) lossyWorld () NewMetrics 0 \<noteq> None
   \<and> ClientBlockedRequests (metrics (the (requestWithHooks 1 (StarlarkBehavior raisingOnRequest)
        lossyWorld () NewMetrics 0))) = 1
   \<and> ClientSentRequests (metrics (the (requestWithHooks 1 (StarlarkBehavior raisingOnRequest)
        lossyWorld () NewMetrics 0))) = 0
   \<and> sends (the (requestWithHooks 1 (StarlarkBehavior raisingOnRequest)
        lossyWorld () NewMetrics 0)) = 0"
proof -
  have a: "onRequest raisingOnRequest = Some (\<lambda>st. (Inl ''fail: boom'', st))"
    by (simp add: raisingOnRequest_def noHooks_def)
  have hook: "OnRequest (StarlarkBehavior raisingOnRequest) False () 
                = ((False, 0, 0, Some (''on_request error: '' @ ''fail: boom'')), ())"
    by (rule Starlark_request_raises [OF a]) simp
  have c: "ctxDone (clientCtx lossyWorld) 0 = False"
    by (simp add: ctxDone_def lossyWorld_def)
  have m: "ClientBlockedRequests NewMetrics = 0" "ClientSentRequests NewMetrics = 0"
    by (simp_all add: NewMetrics_def)
  have run: "requestLoop (Suc 0) (StarlarkBehavior raisingOnRequest) lossyWorld
               \<lparr>script = (), metrics = NewMetrics, clock = 0, isRetry = False, timeout = 0,
                sends = 0, logged = [], sendTimeouts = []\<rparr>
             = Some ((logError (Some (''on_request error: '' @ ''fail: boom''))
                 (\<lparr>script = (), metrics = NewMetrics, clock = 0, isRetry = False, timeout = 0,
                   sends = 0, logged = [], sendTimeouts = []\<rparr>\<lparr>script := ()\<rparr>))
               \<lparr>metrics := NewMetrics\<lparr>ClientBlockedRequests :=
                                ClientBlockedRequests NewMetrics + 1\<rparr>\<rparr>)"
    using requestLoop_blocked [of "StarlarkBehavior raisingOnRequest" lossyWorld
        "\<lparr>script = (), metrics = NewMetrics, clock = 0, isRetry = False, timeout = 0,
          sends = 0, logged = [], sendTimeouts = []\<rparr>" 0 0
        "Some (''on_request error: '' @ ''fail: boom'')" "()" 0]
    by (simp add: c hook)
  show ?thesis
    unfolding requestWithHooks_def One_nat_def run
    by (simp add: logError_def m)
qed

text \<open>
  Claim C3, amended. The timeout with which an attempt races \<^verbatim>\<open>Network.Send\<close> is the
  positive timeout returned by the last \<^verbatim>\<open>on_request\<close> evaluation of the attempt's
  evaluation loop when there is one, and otherwise the timeout the attempt started with:
  none on the first attempt, and on a retry the timeout of the attempt before, which
  every attempt hands on unchanged.
\<close>

theorem C3_timeout_carried_over:
  assumes "evaluationLoop fuel b (clientCtx w) r = Some (Proceed, r1)"
  shows "(\<exists>st d tmo e.
            OnRequest b (ctxDone (clientCtx w) (clock r1)) st = ((True, d, tmo, e), script r1)
            \<and> d \<le> 0
            \<and> timeout r1 = (if tmo > 0 then tmo * Millisecond else timeout r))
       \<and> sendOutcome w r1
           = sendRequest (clientCtx w) (clock r1) (timeout r1)
               (fst (network w (sends r1) (clock r1)), fst (snd (network w (sends r1) (clock r1))))
       \<and> sendTimeouts (runOf (attempt b w r1)) = sendTimeouts r @ [timeout r1]
       \<and> timeout (runOf (attempt b w r1)) = timeout r1"
  using evaluationLoop_timeout [OF assms] by (simp add: attempt_fields sendOutcome_def)

lemma timeoutOnce_hooks:
  "OnRequest (StarlarkBehavior timeoutOnce) False k
     = ((True, 0, if k = 0 then 100 else 0, None), Suc k)"
  "OnRetry (StarlarkBehavior timeoutOnce) False x y k = ((k = 1, 0, None), k)"
  "OnError (StarlarkBehavior timeoutOnce) False resp k = (None, k)"
  "OnFail (StarlarkBehavior timeoutOnce) False e k = (None, k)"
  "OnResponse (StarlarkBehavior timeoutOnce) False resp k = (None, k)"
  by (simp_all add: StarlarkBehavior_def timeoutOnce_def noHooks_def zeroResult_def
      parseOnRequestResult_def)

lemmas client_run_defs =
  requestWithHooks_def Let_def ctxDone_def attempt_def sendOutcome_def sendRequest_def
  logError_def handleRetry_def countSent_def zeroResponse_def Millisecond_def
  recordResponseTime_def appendBounded_def NewMetrics_def

theorem C3_timeout_carried_over_witness:
  "evaluationLoop 1 (StarlarkBehavior timeoutOnce) (clientCtx slowSecondWorld)
      \<lparr>script = 1, metrics = NewMetrics, clock = 50 * Millisecond, isRetry = True,
       timeout = 100 * Millisecond, sends = 1, logged = [], sendTimeouts = [100 * Millisecond]\<rparr>
     = Some (Proceed,
         \<lparr>script = 2, metrics = NewMetrics, clock = 50 * Millisecond, isRetry = True,
          timeout = 100 * Millisecond, sends = 1, logged = [],
          sendTimeouts = [100 * Millisecond]\<rparr>)
   \<and> sendTimeouts (runOf (attempt (StarlarkBehavior timeoutOnce) slowSecondWorld
         \<lparr>script = 2, metrics = NewMetrics, clock = 50 * Millisecond, isRetry = True,
          timeout = 100 * Millisecond, sends = 1, logged = [],
          sendTimeouts = [100 * Millisecond]\<rparr>))
       = [100 * Millisecond, 100 * Millisecond]"
proof -
  have h: "evaluationLoop 1 (StarlarkBehavior timeoutOnce) (clientCtx slowSecondWorld)
      \<lparr>script = 1, metrics = NewMetrics, clock = 50 * Millisecond, isRetry = True,
       timeout = 100 * Millisecond, sends = 1, logged = [], sendTimeouts = [100 * Millisecond]\<rparr>
     = Some (Proceed,
         \<lparr>script = 2, metrics = NewMetrics, clock = 50 * Millisecond, isRetry = True,
          timeout = 100 * Millisecond, sends = 1, logged = [],
          sendTimeouts = [100 * Millisecond]\<rparr>)"
    by (simp add: timeoutOnce_hooks slowSecondWorld_def ctxDone_def logError_def)
  from C3_timeout_carried_over [OF h] h show ?thesis by simp
qed

text \<open>
  Claim C3 as stated says that a retry whose \<^verbatim>\<open>on_request\<close> returns no positive timeout
  is raced against no timeout. The script below returns a timeout of 100 ms on the first
  evaluation only; the first attempt gets a server error after 50 ms and is retried; the
  retry, whose response would arrive after 200 ms, is raced against the 100 ms timeout of
  the first attempt and ends at 150 ms as a network failure.
\<close>

theorem C3_retry_inherits_timeout_counterexample:
  "requestWithHooks 3 (StarlarkBehavior timeoutOnce) slowSecondWorld 0 NewMetrics 0 \<noteq> None
   \<and> sendTimeouts (the (requestWithHooks 3 (StarlarkBehavior timeoutOnce) slowSecondWorld 0
        NewMetrics 0)) = [100 * Millisecond, 100 * Millisecond]
   \<and> ClientRetryRequests (metrics (the (requestWithHooks 3 (StarlarkBehavior timeoutOnce)
        slowSecondWorld 0 NewMetrics 0))) = 1
   \<and> NetworkFailedRequests (metrics (the (requestWithHooks 3 (StarlarkBehavior timeoutOnce)
        slowSecondWorld 0 NewMetrics 0))) = 1
   \<and> ClientSuccessResponses (metrics (the (requestWithHooks 3 (StarlarkBehavior timeoutOnce)
        slowSecondWorld 0 NewMetrics 0))) = 0
   \<and> clock (the (requestWithHooks 3 (StarlarkBehavior timeoutOnce) slowSecondWorld 0
        NewMetrics 0)) = 150 * Millisecond"
  by (simp add: client_run_defs numeral_3_eq_3 timeoutOnce_hooks slowSecondWorld_def)

subsection \<open>Admission rejections on their way to the client\<close>

lemma rejection_result:
  assumes "MemoryUtilization (resourceState s) > 98 / 100
           \<or> (\<not> ctxDone (srvCtx s) t \<and> waitingWorkers s = 0 \<and> queueCap s \<le> queued s)"
  shows "managedHandle reply s t
           = ((zeroResponse,
               Some (if MemoryUtilization (resourceState s) > 98 / 100
                     then ''server out of memory'' else ''server queue full'')), t)"
  using assms by (auto simp: managedHandle_def handleRequestWithResources_def Let_def)

lemma oneWayTrip_passed_alive:
  assumes "oneWayTrip ctx t el z u n = (lat, None, t')"
  shows "t \<le> t' \<and> (case ctx of None \<Rightarrow> True | Some c \<Rightarrow> t' < c)"
  using assms
  by (auto simp: oneWayTrip_def SleepWithContext_def Let_def
      split: prod.splits option.splits if_splits)

lemma Send_rejected:
  assumes fwd: "oneWayTrip ctx now
                  (of_int (Milliseconds (now - (case netBehaviorStartTime n of None \<Rightarrow> now | Some t \<Rightarrow> t))))
                  (normFwd d) (dropFwd d) n = (lat1, None, t1)"
    and hr: "handle t1 = ((zeroResponse, Some msg), t1)"
    and ret: "oneWayTrip ctx t1
                  (of_int (Milliseconds (t1 - (case netBehaviorStartTime n of None \<Rightarrow> now | Some t \<Rightarrow> t))))
                  (normRet d) (dropRet d) n = (lat2, None, t3)"
  shows "fst (Send ctx now d handle n m) = (zeroResponse\<lparr>Error := msg\<rparr>, None)"
    and "fst (snd (Send ctx now d handle n m)) = t3"
    and "ServerErrorResponses (snd (snd (snd (Send ctx now d handle n m))))
           = ServerErrorResponses m + 1"
    and "ServerSuccessResponses (snd (snd (snd (Send ctx now d handle n m))))
           = ServerSuccessResponses m"
  using fwd hr ret
  by (simp_all add: Send_def Let_def zeroResponse_def recordRequestLatency_def
      recordResponseLatency_def)

lemma Send_keeps_client_counters:
  "ClientErrorResponses (snd (snd (snd (Send ctx now d handle n m)))) = ClientErrorResponses m"
  "NetworkFailedRequests (snd (snd (snd (Send ctx now d handle n m)))) = NetworkFailedRequests m"
  "ClientSuccessResponses (snd (snd (snd (Send ctx now d handle n m)))) = ClientSuccessResponses m"
  by (simp_all add: Send_def Let_def recordRequestLatency_def recordResponseLatency_def
      split: prod.split option.split)

lemma countSent_keeps:
  "ClientErrorResponses (countSent r) = ClientErrorResponses (metrics r)"
  "NetworkFailedRequests (countSent r) = NetworkFailedRequests (metrics r)"
  "ClientSuccessResponses (countSent r) = ClientSuccessResponses (metrics r)"
  by (simp_all add: countSent_def Let_def)

lemma attempt_error_response:
  assumes "sendOutcome w r = ((resp, None), t)" and "\<not> Ok resp"
  shows "ClientErrorResponses (metrics (runOf (attempt b w r)))
           = ClientErrorResponses (snd (snd (network w (sends r) (clock r))) (countSent r)) + 1"
    and "NetworkFailedRequests (metrics (runOf (attempt b w r)))
           = NetworkFailedRequests (snd (snd (network w (sends r) (clock r))) (countSent r))"
    and "ClientSuccessResponses (metrics (runOf (attempt b w r)))
           = ClientSuccessResponses (snd (snd (network w (sends r) (clock r))) (countSent r))"
  using assms
  by (simp_all add: attempt_def Let_def handleRetry_fields logError_fields recordResponseTime_def
      split: prod.split)


lemma rejected_outcome:
  assumes rej: "MemoryUtilization (resourceState s) > 98 / 100
                \<or> (\<not> ctxDone (srvCtx s) t1 \<and> waitingWorkers s = 0
                   \<and> queueCap s \<le> queued s)"
    and fwd: "oneWayTrip (clientCtx w) (clock r)
                (of_int (Milliseconds (clock r
                   - (case netBehaviorStartTime n of None \<Rightarrow> clock r | Some t \<Rightarrow> t))))
                (normFwd d) (dropFwd d) n = (lat1, None, t1)"
    and ret: "oneWayTrip (clientCtx w) t1
                (of_int (Milliseconds (t1
                   - (case netBehaviorStartTime n of None \<Rightarrow> clock r | Some t \<Rightarrow> t))))
                (normRet d) (dropRet d) n = (lat2, None, t3)"
    and net: "network w (sends r) (clock r)
                = networkSend (clientCtx w) d (managedHandle reply s) n (clock r)"
    and tmo: "timeout r \<le> 0 \<or> t3 \<le> clock r + timeout r"
  shows "sendOutcome w r
           = ((zeroResponse\<lparr>Error := (if MemoryUtilization (resourceState s) > 98 / 100
                                        then ''server out of memory''
                                        else ''server queue full'')\<rparr>, None), t3)"
proof -
  let ?msg = "if MemoryUtilization (resourceState s) > 98 / 100
              then ''server out of memory'' else ''server queue full''"
  have hr: "managedHandle reply s t1 = ((zeroResponse, Some ?msg), t1)"
    by (rule rejection_result [OF rej])
  note S = Send_rejected [where handle = "managedHandle reply s", OF fwd hr ret]
  have alive: "case clientCtx w of None \<Rightarrow> True | Some c \<Rightarrow> t3 < c"
    using oneWayTrip_passed_alive [OF ret] by simp
  have res: "fst (network w (sends r) (clock r)) = (zeroResponse\<lparr>Error := ?msg\<rparr>, None)"
    "fst (snd (network w (sends r) (clock r))) = t3"
    by (simp_all add: net networkSend_def S)
  show ?thesis
    using tmo alive
    by (auto simp: sendOutcome_def res sendRequest_def Let_def split: option.splits)
qed

text \<open>
  Claim C1, amended. When the server in managed mode rejects a request at admission,
  because memory utilization exceeds 0.98 or because the queue is at capacity, and
  neither network leg is dropped or cancelled (and no client timeout fires first), then
  \<open>Send\<close> returns a nil error together with a response whose \<open>Ok\<close> is false and whose
  \<open>Error\<close> is the text of the rejection, and counts a server error response; the client
  receives exactly that, so the attempt counts an error response and no network failure.
\<close>

theorem C1_admission_rejection_is_error_response:
  assumes rej: "MemoryUtilization (resourceState s) > 98 / 100
                \<or> (\<not> ctxDone (srvCtx s) t1 \<and> waitingWorkers s = 0
                   \<and> queueCap s \<le> queued s)"
    and fwd: "oneWayTrip (clientCtx w) (clock r)
                (of_int (Milliseconds (clock r
                   - (case netBehaviorStartTime n of None \<Rightarrow> clock r | Some t \<Rightarrow> t))))
                (normFwd d) (dropFwd d) n = (lat1, None, t1)"
    and ret: "oneWayTrip (clientCtx w) t1
                (of_int (Milliseconds (t1
                   - (case netBehaviorStartTime n of None \<Rightarrow> clock r | Some t \<Rightarrow> t))))
                (normRet d) (dropRet d) n = (lat2, None, t3)"
    and net: "network w (sends r) (clock r)
                = networkSend (clientCtx w) d (managedHandle reply s) n (clock r)"
    and tmo: "timeout r \<le> 0 \<or> t3 \<le> clock r + timeout r"
  shows "fst (Send (clientCtx w) (clock r) d (managedHandle reply s) n m)
           = (zeroResponse\<lparr>Error := (if MemoryUtilization (resourceState s) > 98 / 100
                                       then ''server out of memory''
                                       else ''server queue full'')\<rparr>, None)
       \<and> ServerErrorResponses (snd (snd (snd
             (Send (clientCtx w) (clock r) d (managedHandle reply s) n m))))
           = ServerErrorResponses m + 1
       \<and> sendOutcome w r
           = ((zeroResponse\<lparr>Error := (if MemoryUtilization (resourceState s) > 98 / 100
                                        then ''server out of memory''
                                        else ''server queue full'')\<rparr>, None), t3)
       \<and> ClientErrorResponses (metrics (runOf (attempt b w r)))
           = ClientErrorResponses (metrics r) + 1
       \<and> NetworkFailedRequests (metrics (runOf (attempt b w r)))
           = NetworkFailedRequests (metrics r)"
proof -
  let ?msg = "if MemoryUtilization (resourceState s) > 98 / 100
              then ''server out of memory'' else ''server queue full''"
  have hr: "managedHandle reply s t1 = ((zeroResponse, Some ?msg), t1)"
    by (rule rejection_result [OF rej])
  note S = Send_rejected [where handle = "managedHandle reply s" and m = m, OF fwd hr ret]
  note out = rejected_outcome [OF rej fwd ret net tmo]
  have notok: "\<not> Ok (zeroResponse\<lparr>Error := ?msg\<rparr>)" by (simp add: zeroResponse_def)
  note A = attempt_error_response [OF out notok, of b]
  have upd: "snd (snd (network w (sends r) (clock r))) (countSent r)
               = snd (snd (snd (Send (clientCtx w) (clock r) d (managedHandle reply s) n
                   (countSent r))))"
    by (simp add: net networkSend_def)
  show ?thesis
    using S(1,3) out A(1,2)
    by (simp add: upd Send_keeps_client_counters countSent_keeps)
qed


lemma default_trip:
  "oneWayTrip None t el 0 0 NewNetwork = (25 * Millisecond, None, t + 25 * Millisecond)"
  by (simp add: oneWayTrip_def NewNetwork_def flat_curve sampleLatencyMs_def Let_def
      SleepWithContext_def trunc_def Millisecond_def)

lemma fullMemoryWorld_fields:
  "clientCtx fullMemoryWorld = None"
  "network fullMemoryWorld k t
     = networkSend None zeroDraws (managedHandle None fullMemoryServer) NewNetwork t"
  by (simp_all add: fullMemoryWorld_def)

lemma fullMemoryServer_rejects:
  "MemoryUtilization (resourceState fullMemoryServer) > 98 / 100"
  by (simp add: fullMemoryServer_def zeroResourceState_def)

theorem C1_admission_rejection_is_error_response_witness:
  "MemoryUtilization (resourceState fullMemoryServer) > 98 / 100
   \<and> \<not> MemoryUtilization (resourceState fullQueueServer) > 98 / 100
   \<and> \<not> ctxDone (srvCtx fullQueueServer) (25 * Millisecond)
   \<and> waitingWorkers fullQueueServer = 0
   \<and> queueCap fullQueueServer \<le> queued fullQueueServer
   \<and> oneWayTrip None 0 0 0 0 NewNetwork = (25 * Millisecond, None, 25 * Millisecond)
   \<and> oneWayTrip None (25 * Millisecond) 25 0 0 NewNetwork
        = (25 * Millisecond, None, 50 * Millisecond)
   \<and> fst (Send None 0 zeroDraws (managedHandle None fullMemoryServer) NewNetwork NewMetrics)
        = (zeroResponse\<lparr>Error := ''server out of memory''\<rparr>, None)
   \<and> fst (Send None 0 zeroDraws (managedHandle None fullQueueServer) NewNetwork NewMetrics)
        = (zeroResponse\<lparr>Error := ''server queue full''\<rparr>, None)
   \<and> ClientErrorResponses (metrics (runOf (attempt NoopClientBehavior fullMemoryWorld
        \<lparr>script = (), metrics = NewMetrics, clock = 0, isRetry = False, timeout = 0,
         sends = 0, logged = [], sendTimeouts = []\<rparr>))) = 1
   \<and> NetworkFailedRequests (metrics (runOf (attempt NoopClientBehavior fullMemoryWorld
        \<lparr>script = (), metrics = NewMetrics, clock = 0, isRetry = False, timeout = 0,
         sends = 0, logged = [], sendTimeouts = []\<rparr>))) = 0
   \<and> ClientErrorResponses (metrics (runOf (attempt NoopClientBehavior fullQueueWorld
        \<lparr>script = (), metrics = NewMetrics, clock = 0, isRetry = False, timeout = 0,
         sends = 0, logged = [], sendTimeouts = []\<rparr>))) = 1
   \<and> NetworkFailedRequests (metrics (runOf (attempt NoopClientBehavior fullQueueWorld
        \<lparr>script = (), metrics = NewMetrics, clock = 0, isRetry = False, timeout = 0,
         sends = 0, logged = [], sendTimeouts = []\<rparr>))) = 0"
proof -
  let ?r = "\<lparr>script = (), metrics = NewMetrics, clock = 0, isRetry = False, timeout = 0,
         sends = 0, logged = [], sendTimeouts = []\<rparr> :: unit ClientRun"
  have st: "netBehaviorStartTime NewNetwork = None" by (simp add: NewNetwork_def)
  have ms: "Milliseconds 0 = 0" "Milliseconds (25 * Millisecond) = 25"
    by (simp_all add: Milliseconds_def quot_def Millisecond_def)
  have m: "ClientErrorResponses NewMetrics = 0" "NetworkFailedRequests NewMetrics = 0"
    by (simp_all add: NewMetrics_def)
  have q: "\<not> MemoryUtilization (resourceState fullQueueServer) > 98 / 100"
    "\<not> ctxDone (srvCtx fullQueueServer) (25 * Millisecond)"
    "waitingWorkers fullQueueServer = 0"
    "queueCap fullQueueServer \<le> queued fullQueueServer"
    by (simp_all add: fullQueueServer_def NewServer_def setupCurveFunctions_def Let_def
        zeroResourceState_def ctxDone_def)
  have inst: "fst (Send None 0 zeroDraws (managedHandle None s) NewNetwork NewMetrics)
                = (zeroResponse\<lparr>Error := (if MemoryUtilization (resourceState s) > 98 / 100
                                             then ''server out of memory''
                                             else ''server queue full'')\<rparr>, None)
              \<and> ClientErrorResponses (metrics (runOf (attempt NoopClientBehavior w ?r))) = 1
              \<and> NetworkFailedRequests (metrics (runOf (attempt NoopClientBehavior w ?r))) = 0"
    if rej: "MemoryUtilization (resourceState s) > 98 / 100
             \<or> (\<not> ctxDone (srvCtx s) (25 * Millisecond) \<and> waitingWorkers s = 0
                \<and> queueCap s \<le> queued s)"
      and ctx: "clientCtx w = None"
      and nw: "network w 0 0 = networkSend None zeroDraws (managedHandle None s) NewNetwork 0"
    for s w
  proof -
    have fwd: "oneWayTrip (clientCtx w) (clock ?r)
                (of_int (Milliseconds (clock ?r
                   - (case netBehaviorStartTime NewNetwork of None \<Rightarrow> clock ?r | Some t \<Rightarrow> t))))
                (normFwd zeroDraws) (dropFwd zeroDraws) NewNetwork
              = (25 * Millisecond, None, 25 * Millisecond)"
      using default_trip [of 0 0] by (simp add: ctx st ms zeroDraws_def)
    have ret: "oneWayTrip (clientCtx w) (25 * Millisecond)
                (of_int (Milliseconds (25 * Millisecond
                   - (case netBehaviorStartTime NewNetwork of None \<Rightarrow> clock ?r | Some t \<Rightarrow> t))))
                (normRet zeroDraws) (dropRet zeroDraws) NewNetwork
              = (25 * Millisecond, None, 50 * Millisecond)"
      using default_trip [of "25 * Millisecond" 25] by (simp add: ctx st ms zeroDraws_def)
    have net: "network w (sends ?r) (clock ?r)
               = networkSend (clientCtx w) zeroDraws (managedHandle None s) NewNetwork (clock ?r)"
      by (simp add: ctx nw)
    have tmo: "timeout ?r \<le> 0 \<or> 50 * Millisecond \<le> clock ?r + timeout ?r" by simp
    from C1_admission_rejection_is_error_response
           [OF rej fwd ret net tmo, of NewMetrics NoopClientBehavior]
    show ?thesis by (simp add: ctx m)
  qed
  have rej1: "MemoryUtilization (resourceState fullMemoryServer) > 98 / 100
             \<or> (\<not> ctxDone (srvCtx fullMemoryServer) (25 * Millisecond)
                \<and> waitingWorkers fullMemoryServer = 0
                \<and> queueCap fullMemoryServer \<le> queued fullMemoryServer)"
    using fullMemoryServer_rejects by simp
  have rej2: "MemoryUtilization (resourceState fullQueueServer) > 98 / 100
             \<or> (\<not> ctxDone (srvCtx fullQueueServer) (25 * Millisecond)
                \<and> waitingWorkers fullQueueServer = 0
                \<and> queueCap fullQueueServer \<le> queued fullQueueServer)"
    using q by simp
  from inst [OF rej1, of fullMemoryWorld] inst [OF rej2, of fullQueueWorld]
    fullMemoryServer_rejects q default_trip [of 0 0] default_trip [of "25 * Millisecond" 25]
  show ?thesis by (simp add: fullMemoryWorld_def fullQueueWorld_def)
qed

lemma requestLoop_noop:
  "requestLoop (Suc fuel) NoopClientBehavior w r = Some (runOf (attempt NoopClientBehavior w r))"
proof -
  have ev: "evaluationLoop (Suc fuel) NoopClientBehavior (clientCtx w) r = Some (Proceed, r)"
    by (simp add: NoopClientBehavior_def logError_def)
  have "fst (fst (OnRetry NoopClientBehavior c x y s)) = False" for c x y and s :: 'a
    by (simp add: NoopClientBehavior_def)
  from attempt_no_retry [of NoopClientBehavior w r, OF this]
  obtain r' where "attempt NoopClientBehavior w r = Finished r'" by blast
  with ev show ?thesis by simp
qed

text \<open>
  Claim C1 as stated says that a rejection at admission makes \<open>Send\<close> return a non-nil
  error, so that the client counts a network failure. With a server whose memory
  utilization is above 0.98 behind the default network, the server's handler returns the
  error, \<open>Send\<close> returns nil, and the client counts one error response and no network
  failure.
\<close>

theorem C1_rejection_is_not_transport_error_counterexample:
  "managedHandle None fullMemoryServer (25 * Millisecond)
     = ((zeroResponse, Some ''server out of memory''), 25 * Millisecond)
   \<and> snd (fst (Send None 0 zeroDraws (managedHandle None fullMemoryServer) NewNetwork NewMetrics))
     = None
   \<and> requestWithHooks 1 NoopClientBehavior fullMemoryWorld () NewMetrics 0 \<noteq> None
   \<and> NetworkFailedRequests (metrics (the (requestWithHooks 1 NoopClientBehavior fullMemoryWorld ()
        NewMetrics 0))) = 0
   \<and> ClientErrorResponses (metrics (the (requestWithHooks 1 NoopClientBehavior fullMemoryWorld ()
        NewMetrics 0))) = 1"
proof -
  let ?r = "\<lparr>script = (), metrics = NewMetrics, clock = 0, isRetry = False, timeout = 0,
         sends = 0, logged = [], sendTimeouts = []\<rparr> :: unit ClientRun"
  let ?h = "managedHandle None fullMemoryServer"
  have rej: "MemoryUtilization (resourceState fullMemoryServer) > 98 / 100
             \<or> (\<not> ctxDone (srvCtx fullMemoryServer) (25 * Millisecond)
                \<and> waitingWorkers fullMemoryServer = 0
                \<and> queueCap fullMemoryServer \<le> queued fullMemoryServer)"
    using fullMemoryServer_rejects by simp
  have hr: "?h (25 * Millisecond)
              = ((zeroResponse, Some ''server out of memory''), 25 * Millisecond)"
    using rejection_result [OF rej, of None] fullMemoryServer_rejects by simp
  have st: "netBehaviorStartTime NewNetwork = None" by (simp add: NewNetwork_def)
  have ms: "Milliseconds 0 = 0" "Milliseconds (25 * Millisecond) = 25"
    by (simp_all add: Milliseconds_def quot_def Millisecond_def)
  have fwd: "oneWayTrip None 0
                (of_int (Milliseconds (0
                   - (case netBehaviorStartTime NewNetwork of None \<Rightarrow> 0 | Some t \<Rightarrow> t))))
                (normFwd zeroDraws) (dropFwd zeroDraws) NewNetwork
              = (25 * Millisecond, None, 25 * Millisecond)"
    using default_trip [of 0 0] by (simp add: st ms zeroDraws_def)
  have ret: "oneWayTrip None (25 * Millisecond)
                (of_int (Milliseconds (25 * Millisecond
                   - (case netBehaviorStartTime NewNetwork of None \<Rightarrow> 0 | Some t \<Rightarrow> t))))
                (normRet zeroDraws) (dropRet zeroDraws) NewNetwork
              = (25 * Millisecond, None, 50 * Millisecond)"
    using default_trip [of "25 * Millisecond" 25] by (simp add: st ms zeroDraws_def)
  note S = Send_rejected [where handle = ?h, OF fwd hr ret]
  have res: "fst (network fullMemoryWorld 0 0)
               = (zeroResponse\<lparr>Error := ''server out of memory''\<rparr>, None)"
    "fst (snd (network fullMemoryWorld 0 0)) = 50 * Millisecond"
    by (simp_all add: fullMemoryWorld_fields networkSend_def S)
  have out: "sendOutcome fullMemoryWorld ?r
               = ((zeroResponse\<lparr>Error := ''server out of memory''\<rparr>, None), 50 * Millisecond)"
    by (simp add: sendOutcome_def res sendRequest_def Let_def fullMemoryWorld_fields(1))
  have notok: "\<not> Ok (zeroResponse\<lparr>Error := ''server out of memory''\<rparr>)"
    by (simp add: zeroResponse_def)
  note A = attempt_error_response [OF out notok, of NoopClientBehavior]
  have m: "ClientErrorResponses NewMetrics = 0" "NetworkFailedRequests NewMetrics = 0"
    by (simp_all add: NewMetrics_def)
  have cnt: "ClientErrorResponses (metrics (runOf (attempt NoopClientBehavior fullMemoryWorld ?r))) = 1"
    "NetworkFailedRequests (metrics (runOf (attempt NoopClientBehavior fullMemoryWorld ?r))) = 0"
    using A(1,2)
    by (simp_all add: fullMemoryWorld_fields networkSend_def Send_keeps_client_counters
        countSent_keeps m)
  show ?thesis
    unfolding requestWithHooks_def One_nat_def requestLoop_noop
    using hr S(1) cnt by simp
qed

end
